theory Spec2Isabelle
  imports Complex_Main "HOL-Library.AList"
begin

section \<open>Conventions of the embedding\<close>

text \<open>
  The TypeScript sources compute with JavaScript numbers. They are modelled as \<open>real\<close>
  (timestamps in milliseconds as \<open>int\<close>); rounding of IEEE doubles and NaN inputs are outside
  the model. Where the source divides by a value that can be zero, the model writes the
  case out instead of relying on HOL's \<open>x / 0 = 0\<close>.
  A JavaScript \<open>Map\<close> is an insertion-ordered association list: \<open>map_of\<close> is \<open>get\<close>,
  \<open>AList.update\<close> is \<open>set\<close> (in place for a present key, appended for a new one) and
  \<open>AList.delete\<close> is \<open>delete\<close>. \<open>Date.now()\<close> and \<open>Math.random()\<close> are parameters.
\<close>

section \<open>Opportunities (arbitrage/types.ts)\<close>

datatype ArbitrageType = multi_outcome | cross_market | related_market

text \<open>
  The union \<open>ArbitrageOpportunity\<close>, flattened to the fields the modelled code reads.
  The fields of the second market are absent (\<open>None\<close>) on multi-outcome and NegRisk
  opportunities, which the source reads through \<open>(opp as any).market2...\<close>.
\<close>

record ArbitrageOpportunity =
  type :: ArbitrageType
  subType :: "string option"
  market1Id :: string
  market1Question :: string
  market1Price :: real
  market1Liquidity :: real
  market2Id :: "string option"
  market2Question :: "string option"
  market2Price :: "real option"
  market2Liquidity :: "real option"
  spread :: real
  profitPercent :: real
  confidenceScore :: real

section \<open>RiskManager (execution/riskManager.ts)\<close>

record RiskLimits =
  maxPositionSizeUsd :: real
  maxTotalExposureUsd :: real
  maxDailyLossUsd :: real
  maxSlippagePercent :: real
  minLiquidityUsd :: real
  maxGasCostUsd :: real
  cooldownMs :: real

datatype Side = BUY | SELL

text \<open>A \<open>Position\<close>; its field \<open>size\<close> is named \<open>pos_size\<close> here.\<close>

record Position =
  marketId :: string
  outcome :: nat
  pos_size :: real
  avgEntryPrice :: real
  currentPrice :: real
  unrealizedPnl :: real
  openedAt :: int

record RiskManager =
  limits :: RiskLimits
  positions :: "(string \<times> Position) list"
  dailyPnL :: real
  dailyVolume :: real
  lastTradeTime :: int
  totalExposure :: real
  dailyReset :: int

text \<open>
  The reason of a failed check is a template string in the source; the model keeps the
  template and the numbers it interpolates.
\<close>

datatype RiskReason =
    PositionWouldExceedLimit real real
  | TotalExposureWouldExceedLimit real real
  | DailyLossLimitReached real
  | InsufficientLiquidity real real
  | CooldownActive real
  | ProfitAfterSlippageTooLow "real option"

record RiskCheck =
  name :: string
  passed :: bool
  reason :: "RiskReason option"

text \<open>The result of \<open>checkPreExecution\<close>; its \<open>reason\<close> is \<open>result_reason\<close> here.\<close>

record RiskCheckResult =
  approved :: bool
  result_reason :: "RiskReason option"
  checks :: "RiskCheck list"

definition msPerDay :: int where
  "msPerDay = 86400000"

text \<open>\<open>setUTCHours(24, 0, 0, 0)\<close> on the current date: the start of the next UTC day.\<close>

definition getNextMidnight :: "int \<Rightarrow> int" where
  "getNextMidnight now = (now div msPerDay + 1) * msPerDay"

text \<open>The constructor, with the limits already resolved against the configuration.\<close>

definition newRiskManager :: "RiskLimits \<Rightarrow> int \<Rightarrow> RiskManager" where
  "newRiskManager lims now =
     \<lparr>limits = lims, positions = [], dailyPnL = 0, dailyVolume = 0, lastTradeTime = 0,
      totalExposure = 0, dailyReset = getNextMidnight now\<rparr>"

definition resetDaily :: "RiskManager \<Rightarrow> int \<Rightarrow> RiskManager" where
  "resetDaily s now = s\<lparr>dailyPnL := 0, dailyVolume := 0, dailyReset := getNextMidnight now\<rparr>"

definition checkDailyReset :: "RiskManager \<Rightarrow> int \<Rightarrow> RiskManager" where
  "checkDailyReset s now = (if dailyReset s \<le> now then resetDaily s now else s)"

definition mkCheck :: "string \<Rightarrow> bool \<Rightarrow> RiskReason \<Rightarrow> RiskCheck" where
  "mkCheck n p r = \<lparr>name = n, passed = p, reason = (if p then None else Some r)\<rparr>"

definition checkPositionLimit :: "RiskManager \<Rightarrow> ArbitrageOpportunity \<Rightarrow> real \<Rightarrow> RiskCheck" where
  "checkPositionLimit s opportunity orderSizeUsd =
     (let currentSize = (case map_of (positions s) (market1Id opportunity) of
                           None \<Rightarrow> 0 | Some p \<Rightarrow> pos_size p);
          newSize = currentSize + orderSizeUsd
      in mkCheck ''position_limit'' (newSize \<le> maxPositionSizeUsd (limits s))
           (PositionWouldExceedLimit newSize (maxPositionSizeUsd (limits s))))"

definition checkTotalExposure :: "RiskManager \<Rightarrow> real \<Rightarrow> RiskCheck" where
  "checkTotalExposure s orderSizeUsd =
     (let newExposure = totalExposure s + orderSizeUsd
      in mkCheck ''total_exposure'' (newExposure \<le> maxTotalExposureUsd (limits s))
           (TotalExposureWouldExceedLimit newExposure (maxTotalExposureUsd (limits s))))"

definition checkDailyLoss :: "RiskManager \<Rightarrow> RiskCheck" where
  "checkDailyLoss s =
     mkCheck ''daily_loss'' (- maxDailyLossUsd (limits s) < dailyPnL s)
       (DailyLossLimitReached \<bar>dailyPnL s\<bar>)"

text \<open>
  \<open>Math.min(market1Liquidity, market2Liquidity || Infinity)\<close>: an absent or zero second
  liquidity is replaced by \<open>Infinity\<close>, so the minimum is the first liquidity.
\<close>

definition legsMinLiquidity :: "ArbitrageOpportunity \<Rightarrow> real" where
  "legsMinLiquidity opportunity =
     (if type opportunity = multi_outcome then market1Liquidity opportunity
      else (case market2Liquidity opportunity of
              None \<Rightarrow> market1Liquidity opportunity
            | Some l2 \<Rightarrow> (if l2 = 0 then market1Liquidity opportunity
                         else min (market1Liquidity opportunity) l2)))"

definition checkLiquidity :: "RiskManager \<Rightarrow> ArbitrageOpportunity \<Rightarrow> RiskCheck" where
  "checkLiquidity s opportunity =
     (let minLiquidity = legsMinLiquidity opportunity
      in mkCheck ''liquidity'' (minLiquidityUsd (limits s) \<le> minLiquidity)
           (InsufficientLiquidity minLiquidity (minLiquidityUsd (limits s))))"

definition checkCooldown :: "RiskManager \<Rightarrow> int \<Rightarrow> RiskCheck" where
  "checkCooldown s now =
     (let timeSinceLastTrade = real_of_int (now - lastTradeTime s)
      in mkCheck ''cooldown'' (cooldownMs (limits s) \<le> timeSinceLastTrade)
           (CooldownActive ((cooldownMs (limits s) - timeSinceLastTrade) / 1000)))"

text \<open>
  \<open>(orderSizeUsd / market1Liquidity) * 0.5 * 100\<close>. With a zero liquidity the quotient is
  \<open>+Infinity\<close>, \<open>-Infinity\<close> or \<open>NaN\<close> in the source, so that \<open>netProfit > 0.1\<close> holds
  exactly for a negative order size.
\<close>

definition checkMinProfitability :: "ArbitrageOpportunity \<Rightarrow> real \<Rightarrow> RiskCheck" where
  "checkMinProfitability opportunity orderSizeUsd =
     (if market1Liquidity opportunity = 0
      then mkCheck ''profitability'' (orderSizeUsd < 0) (ProfitAfterSlippageTooLow None)
      else (let estimatedSlippage = (orderSizeUsd / market1Liquidity opportunity) * (1/2) * 100;
                netProfit = profitPercent opportunity - estimatedSlippage
            in mkCheck ''profitability'' (1/10 < netProfit)
                 (ProfitAfterSlippageTooLow (Some netProfit))))"

text \<open>
  \<open>checkPreExecution\<close> first runs the daily reset, which may change the state, then the
  six checks on the state after the reset; \<open>checks.find(c => !c.passed)\<close> is \<open>find\<close>.
\<close>

definition checkPreExecution ::
  "RiskManager \<Rightarrow> int \<Rightarrow> ArbitrageOpportunity \<Rightarrow> real \<Rightarrow> RiskManager \<times> RiskCheckResult" where
  "checkPreExecution s now opportunity orderSizeUsd =
     (let s' = checkDailyReset s now;
          cs = [checkPositionLimit s' opportunity orderSizeUsd,
                checkTotalExposure s' orderSizeUsd,
                checkDailyLoss s',
                checkLiquidity s' opportunity,
                checkCooldown s' now,
                checkMinProfitability opportunity orderSizeUsd];
          failed = find (\<lambda>c. \<not> passed c) cs
      in (s', \<lparr>approved = (failed = None),
               result_reason = (case failed of None \<Rightarrow> None | Some c \<Rightarrow> reason c),
               checks = cs\<rparr>))"

definition exposureOf :: "(string \<times> Position) list \<Rightarrow> real" where
  "exposureOf ps = sum_list (map (\<lambda>kp. \<bar>pos_size (snd kp)\<bar>) ps)"

definition updateAfterExecution ::
  "RiskManager \<Rightarrow> int \<Rightarrow> string \<Rightarrow> Side \<Rightarrow> real \<Rightarrow> real \<Rightarrow> real \<Rightarrow> RiskManager" where
  "updateAfterExecution s now mid side sizeUsd price pnl =
     (let ps' =
        (case map_of (positions s) mid of
           Some existing \<Rightarrow>
             (let sz = (if side = BUY then pos_size existing + sizeUsd
                        else pos_size existing - sizeUsd);
                  e' = existing\<lparr>pos_size := sz, currentPrice := price,
                                unrealizedPnl := (price - avgEntryPrice existing) * sz\<rparr>
              in if sz \<le> 0 then AList.delete mid (positions s)
                 else AList.update mid e' (positions s))
         | None \<Rightarrow>
             (if side = BUY
              then AList.update mid
                     \<lparr>marketId = mid, outcome = 1, pos_size = sizeUsd, avgEntryPrice = price,
                      currentPrice = price, unrealizedPnl = 0, openedAt = now\<rparr> (positions s)
              else positions s))
      in s\<lparr>dailyPnL := dailyPnL s + pnl,
           dailyVolume := dailyVolume s + sizeUsd,
           lastTradeTime := now,
           positions := ps',
           totalExposure := exposureOf ps'\<rparr>)"

definition emergencyStop :: "RiskManager \<Rightarrow> RiskManager" where
  "emergencyStop s = s\<lparr>limits := (limits s)\<lparr>maxTotalExposureUsd := 0, maxDailyLossUsd := 0\<rparr>\<rparr>"

text \<open>
  The states a risk manager can be in: built by the constructor and changed by its
  public methods only.
\<close>

inductive reachable :: "RiskManager \<Rightarrow> bool" where
  r_new: "reachable (newRiskManager lims now)"
| r_check: "reachable s \<Longrightarrow> reachable (fst (checkPreExecution s now opp sz))"
| r_update: "reachable s \<Longrightarrow> reachable (updateAfterExecution s now mid side sz price pnl)"
| r_reset: "reachable s \<Longrightarrow> reachable (resetDaily s now)"
| r_stop: "reachable s \<Longrightarrow> reachable (emergencyStop s)"

text \<open>\<open>later s t\<close>: the state \<open>t\<close> arises from \<open>s\<close> by further method calls.\<close>

inductive later :: "RiskManager \<Rightarrow> RiskManager \<Rightarrow> bool" where
  l_refl: "later s s"
| l_check: "later s t \<Longrightarrow> later s (fst (checkPreExecution t now opp sz))"
| l_update: "later s t \<Longrightarrow> later s (updateAfterExecution t now mid side sz price pnl)"
| l_reset: "later s t \<Longrightarrow> later s (resetDaily t now)"
| l_stop: "later s t \<Longrightarrow> later s (emergencyStop t)"

definition positionsPositive :: "RiskManager \<Rightarrow> bool" where
  "positionsPositive s = list_all (\<lambda>kp. 0 < pos_size (snd kp)) (positions s)"

definition exposureConsistent :: "RiskManager \<Rightarrow> bool" where
  "exposureConsistent s = (totalExposure s = exposureOf (positions s))"

definition exampleLimits :: RiskLimits where
  "exampleLimits = \<lparr>maxPositionSizeUsd = 1000, maxTotalExposureUsd = 5000,
     maxDailyLossUsd = 500, maxSlippagePercent = 1, minLiquidityUsd = 5000,
     maxGasCostUsd = 5, cooldownMs = 5000\<rparr>"

definition exampleOpp :: ArbitrageOpportunity where
  "exampleOpp = \<lparr>type = cross_market, subType = None, market1Id = ''m1'',
     market1Question = ''Will LA win the NBA Finals 2025?'', market1Price = 2/5,
     market1Liquidity = 10000, market2Id = Some ''m2'',
     market2Question = Some ''Will LA win the 2025 NBA Finals?'', market2Price = Some (9/20),
     market2Liquidity = Some 20000, spread = 1/20, profitPercent = 5,
     confidenceScore = 9/10\<rparr>"

section \<open>SlippageModel (execution/slippageModel.ts)\<close>

text \<open>The entries of \<open>arbConfig\<close> that the modelled code reads.\<close>

record ArbConfig =
  baseSlippageBps :: real
  liquidityImpactFactor :: real
  risk_maxPositionSizeUsd :: real

record SlippageEstimate =
  estimatedSlippageBps :: real
  estimatedExecutionPrice :: real
  confidence :: real
  liquidityDepth :: real

definition calculatePriceImpact :: "real \<Rightarrow> bool \<Rightarrow> real" where
  "calculatePriceImpact price isBuy =
     (if isBuy then (if 9/10 < price then (price - 9/10) * 100 else 0)
      else (if price < 1/10 then (1/10 - price) * 100 else 0))"

definition clampPrice :: "real \<Rightarrow> real" where
  "clampPrice p = max (1/100) (min (99/100) p)"

text \<open>
  \<open>estimate\<close>. With \<open>marketLiquidity = 0\<close> the liquidity ratio is not a finite number in
  the source; the model returns \<open>None\<close> there.
\<close>

definition estimate :: "ArbConfig \<Rightarrow> real \<Rightarrow> real \<Rightarrow> bool \<Rightarrow> real \<Rightarrow> SlippageEstimate option" where
  "estimate cfg orderSizeUsd marketLiquidity isBuy curPrice =
     (if marketLiquidity = 0 then None
      else (let liquidityRatio = orderSizeUsd / marketLiquidity;
                liquidityImpactBps = liquidityRatio * liquidityImpactFactor cfg * 10000;
                priceImpactBps = calculatePriceImpact curPrice isBuy;
                totalSlippageBps = baseSlippageBps cfg + liquidityImpactBps + priceImpactBps;
                slippageMultiplier = totalSlippageBps / 10000;
                estimatedPrice = (if isBuy then curPrice * (1 + slippageMultiplier)
                                  else curPrice * (1 - slippageMultiplier))
            in Some \<lparr>estimatedSlippageBps = totalSlippageBps,
                      estimatedExecutionPrice = clampPrice estimatedPrice,
                      confidence = max (3/10) (1 - liquidityRatio * 2),
                      liquidityDepth = marketLiquidity\<rparr>))"

text \<open>
  \<open>addNoise\<close>; \<open>rnd\<close> is the value of \<open>Math.random()\<close>, in \<open>[0, 1)\<close>. The division that
  recovers \<open>originalPrice\<close> is by \<open>1 + estimatedSlippageBps / 10000\<close>; the model returns
  \<open>None\<close> when that is zero.
\<close>

definition noiseFactor :: "real \<Rightarrow> real" where
  "noiseFactor rnd = 1 + (rnd - 1/2) * (2/5)"

definition addNoise :: "SlippageEstimate \<Rightarrow> real \<Rightarrow> SlippageEstimate option" where
  "addNoise est rnd =
     (let noisySlippage = estimatedSlippageBps est * noiseFactor rnd;
          slippageMultiplier = noisySlippage / 10000
      in if 1 + estimatedSlippageBps est / 10000 = 0 then None
         else (let originalPrice =
                     estimatedExecutionPrice est / (1 + estimatedSlippageBps est / 10000)
               in Some (est\<lparr>estimatedSlippageBps := max 0 noisySlippage,
                            estimatedExecutionPrice :=
                              clampPrice (originalPrice * (1 + slippageMultiplier))\<rparr>)))"

text \<open>
  What the specification asks of the noise pass, in its words: the current price shifted
  by the perturbed slippage fraction in the direction of the trade, clamped to
  \<open>[0.01, 0.99]\<close>, as \<open>estimate\<close> computes a price.
\<close>

definition spec_noisyPrice :: "bool \<Rightarrow> real \<Rightarrow> real \<Rightarrow> real" where
  "spec_noisyPrice isBuy curPrice noisyBps =
     clampPrice (if isBuy then curPrice * (1 + noisyBps / 10000)
                 else curPrice * (1 - noisyBps / 10000))"

definition exampleConfig :: ArbConfig where
  "exampleConfig = \<lparr>baseSlippageBps = 10, liquidityImpactFactor = 1/2,
     risk_maxPositionSizeUsd = 1000\<rparr>"

section \<open>PaperTradingExecutor (second part of execution/slippageModel.ts)\<close>

datatype LegStatus = leg_filled | leg_partial | leg_failed

text \<open>
  A \<open>PaperTrade\<close>. Fields whose names the opportunity already uses carry the prefix
  \<open>trade_\<close>; \<open>slippageBps\<close> and the fields of the Telegram message are not modelled
  beyond what \<open>execute\<close> stores.
\<close>

record PaperTrade =
  trade_id :: nat
  timestamp :: int
  opportunityType :: string
  trade_subType :: "string option"
  trade_market1Question :: string
  trade_market2Question :: "string option"
  positionSize :: real
  kellyFraction :: real
  expectedProfit :: real
  realizedProfit :: real
  trade_profitPercent :: real
  leg1Status :: LegStatus
  leg2Status :: "LegStatus option"
  slippageBps :: real
  executionTimeMs :: int
  balanceAfter :: real
  success :: bool
  failureReason :: "string option"

record PaperTradingExecutor =
  bankroll :: real
  startingBankroll :: real
  trades :: "PaperTrade list"
  tradeIdCounter :: nat
  peakBalance :: real
  maxDrawdown :: real

text \<open>
  \<open>calculateKellyFraction\<close>. The odds are zero exactly when the expected profit is zero;
  the source then divides \<open>-loseProbability < 0\<close> by zero, and \<open>-Infinity\<close> is clamped to
  \<open>0.01\<close>.
\<close>

definition calculateKellyFraction :: "real \<Rightarrow> real \<Rightarrow> real" where
  "calculateKellyFraction confidenceScore' expectedProfitPercent =
     (let winProbability = min (95/100) (max (1/2) confidenceScore');
          loseProbability = 1 - winProbability;
          profitIfWin = expectedProfitPercent / 100;
          lossIfLose = 2/100;
          odds = profitIfWin / lossIfLose
      in if odds = 0 then 1/100
         else (let kelly = (odds * winProbability - loseProbability) / odds;
                   fractionalKelly = kelly * (1/2)
               in min (1/4) (max (1/100) fractionalKelly)))"

definition calculatePositionSize ::
  "ArbConfig \<Rightarrow> PaperTradingExecutor \<Rightarrow> ArbitrageOpportunity \<Rightarrow> real" where
  "calculatePositionSize cfg st opportunity =
     (let kf = calculateKellyFraction (confidenceScore opportunity) (profitPercent opportunity);
          p0 = bankroll st * kf;
          p1 = min p0 (risk_maxPositionSizeUsd cfg);
          p2 = min p1 (bankroll st * (1/4));
          p3 = max p2 5
      in if bankroll st < 10 then 0 else p3)"

text \<open>
  The values of \<open>Math.random()\<close> that one \<open>execute\<close> reads, one field for each call site
  of \<open>simulateCLOBExecution\<close> and \<open>addNoise\<close>; each lies in \<open>[0, 1)\<close>.
\<close>

record Draws =
  rndLeg1 :: real
  rndLeg2 :: real
  rndPartial :: real
  rndFill :: real
  rndNoise :: real

record ClobResult =
  leg1Failed :: bool
  leg2Failed :: bool
  fillRate :: real
  totalSlippageBps :: real

definition LEG_FAILURE_PROBABILITY :: real where
  "LEG_FAILURE_PROBABILITY = 5/100"

definition PARTIAL_FILL_PROBABILITY :: real where
  "PARTIAL_FILL_PROBABILITY = 15/100"

text \<open>
  \<open>simulateCLOBExecution\<close>. Of the second estimate and of the noisy first estimate only
  \<open>estimatedSlippageBps\<close> is read. The second leg is estimated when \<open>market2Liquidity\<close> is
  truthy; an absent \<open>market2Price\<close> has no price impact there.
\<close>

definition simulateCLOBExecution ::
  "ArbConfig \<Rightarrow> ArbitrageOpportunity \<Rightarrow> real \<Rightarrow> Draws \<Rightarrow> ClobResult option" where
  "simulateCLOBExecution cfg opportunity posSize d =
     (let l1f = rndLeg1 d < LEG_FAILURE_PROBABILITY;
          l2f = (\<not> l1f \<and> rndLeg2 d < LEG_FAILURE_PROBABILITY);
          fr = (if \<not> l1f \<and> \<not> l2f \<and> rndPartial d < PARTIAL_FILL_PROBABILITY
                then 1/2 + rndFill d * (1/2) else 1)
      in case estimate cfg posSize (market1Liquidity opportunity) True (market1Price opportunity) of
           None \<Rightarrow> None
         | Some leg1Slippage \<Rightarrow>
             (let leg2Bps =
                    (case market2Liquidity opportunity of
                       None \<Rightarrow> 0
                     | Some l2 \<Rightarrow>
                         (if l2 = 0 then 0
                          else baseSlippageBps cfg
                               + (posSize / l2) * liquidityImpactFactor cfg * 10000
                               + (case market2Price opportunity of
                                    None \<Rightarrow> 0
                                  | Some p2 \<Rightarrow> calculatePriceImpact p2 False)));
                  leg1NoisyBps = max 0 (estimatedSlippageBps leg1Slippage * noiseFactor (rndNoise d))
              in Some \<lparr>leg1Failed = l1f, leg2Failed = l2f, fillRate = fr,
                        totalSlippageBps = leg1NoisyBps + leg2Bps\<rparr>))"

datatype ExecOutcome =
    Skipped
  | OutsideModel
  | Executed PaperTradingExecutor PaperTrade

definition typeName :: "ArbitrageType \<Rightarrow> string" where
  "typeName t = (case t of multi_outcome \<Rightarrow> ''multi_outcome''
                 | cross_market \<Rightarrow> ''cross_market''
                 | related_market \<Rightarrow> ''related_market'')"

text \<open>
  \<open>execute\<close>, without the notification and the log line. \<open>Skipped\<close> is the \<open>null\<close> return;
  \<open>OutsideModel\<close> stands for the runs in which the source computes with a non-finite
  number (zero liquidity of the first market, or a drawdown over a zero peak).
  \<open>startTime\<close> and \<open>endTime\<close> are the two readings of the clock.
\<close>

definition execute ::
  "ArbConfig \<Rightarrow> PaperTradingExecutor \<Rightarrow> ArbitrageOpportunity \<Rightarrow> int \<Rightarrow> int \<Rightarrow> Draws \<Rightarrow> ExecOutcome" where
  "execute cfg st opportunity startTime endTime d =
     (let kf = calculateKellyFraction (confidenceScore opportunity) (profitPercent opportunity);
          posSize = calculatePositionSize cfg st opportunity
      in if posSize \<le> 0 then Skipped
         else (let b1 = bankroll st - posSize
               in case simulateCLOBExecution cfg opportunity posSize d of
                    None \<Rightarrow> OutsideModel
                  | Some ex \<Rightarrow>
                      (let slippageCost = (totalSlippageBps ex / 10000) * posSize;
                           fees = posSize * (1/100);
                           grossProfit = (profitPercent opportunity / 100) * posSize;
                           filledProfit = grossProfit * fillRate ex - slippageCost - fees;
                           unwindLoss = posSize * (2/100);
                           rp = (if leg1Failed ex then - posSize * (1/1000)
                                 else if leg2Failed ex then - unwindLoss
                                 else filledProfit);
                           b2 = (if leg1Failed ex then b1 + posSize
                                 else if leg2Failed ex then b1 + (posSize - unwindLoss)
                                 else b1 + (posSize + filledProfit));
                           ok = (\<not> leg1Failed ex \<and> \<not> leg2Failed ex \<and> 0 < filledProfit);
                           why = (if leg1Failed ex then Some ''Leg 1 execution failed''
                                  else if leg2Failed ex
                                  then Some ''Leg 2 failed - position unwound at loss''
                                  else if 0 < filledProfit then None
                                  else Some ''Slippage exceeded profit margin'');
                           peak = (if peakBalance st < b2 then b2 else peakBalance st)
                       in if peak = 0 \<and> b2 \<noteq> 0 then OutsideModel
                          else (let dd = (if peak = 0 then maxDrawdown st
                                          else max (maxDrawdown st) ((peak - b2) / peak));
                                    isNegRisk = (subType opportunity = Some ''negrisk'');
                                    legState = (if fillRate ex < 1 then leg_partial else leg_filled);
                                    trade = \<lparr>trade_id = tradeIdCounter st + 1,
                                      timestamp = endTime,
                                      opportunityType = (if isNegRisk then ''negrisk''
                                                         else typeName (type opportunity)),
                                      trade_subType = subType opportunity,
                                      trade_market1Question = market1Question opportunity,
                                      trade_market2Question = market2Question opportunity,
                                      positionSize = posSize,
                                      kellyFraction = kf,
                                      expectedProfit = (profitPercent opportunity / 100) * posSize,
                                      realizedProfit = rp,
                                      trade_profitPercent = (rp / posSize) * 100,
                                      leg1Status = (if leg1Failed ex then leg_failed else legState),
                                      leg2Status = (if type opportunity \<noteq> multi_outcome
                                                    then Some (if leg2Failed ex then leg_failed
                                                               else legState)
                                                    else None),
                                      slippageBps = totalSlippageBps ex,
                                      executionTimeMs = endTime - startTime,
                                      balanceAfter = b2,
                                      success = ok,
                                      failureReason = why\<rparr>
                                in Executed (st\<lparr>bankroll := b2, peakBalance := peak,
                                               maxDrawdown := dd,
                                               tradeIdCounter := tradeIdCounter st + 1,
                                               trades := trades st @ [trade]\<rparr>) trade))))"

definition newExecutor :: "real \<Rightarrow> PaperTradingExecutor" where
  "newExecutor start = \<lparr>bankroll = start, startingBankroll = start, trades = [],
     tradeIdCounter = 0, peakBalance = start, maxDrawdown = 0\<rparr>"

section \<open>ArbitrageEngine (last part of arbitrage/detectors/crossMarketDetector.ts)\<close>

record TrackedOpportunity =
  opportunity :: ArbitrageOpportunity
  firstSeenAt :: int
  lastSeenAt :: int
  seenCount :: nat
  priceHistory :: "(int \<times> real) list"
  executed :: bool

text \<open>
  \<open>getOpportunityKey\<close>: NegRisk opportunities carry the type \<open>multi_outcome\<close>;
  \<open>market2Id || ''\<close> is the empty string for an absent second market.
\<close>

definition getOpportunityKey :: "ArbitrageOpportunity \<Rightarrow> string" where
  "getOpportunityKey opp =
     (if type opp = multi_outcome then ''mo_'' @ market1Id opp
      else typeName (type opp) @ ''_'' @ market1Id opp @ ''_''
           @ (case market2Id opp of None \<Rightarrow> [] | Some m2 \<Rightarrow> m2))"

text \<open>
  \<open>opportunities.sort((a, b) => b.profitPercent - a.profitPercent)\<close>: a stable sort by
  descending profit.
\<close>

definition sortByProfit :: "ArbitrageOpportunity list \<Rightarrow> ArbitrageOpportunity list" where
  "sortByProfit opps = sort_key (\<lambda>opp. - profitPercent opp) opps"

fun dedupe :: "string list \<Rightarrow> ArbitrageOpportunity list \<Rightarrow> ArbitrageOpportunity list" where
  "dedupe seen [] = []"
| "dedupe seen (opp # rest) =
     (if getOpportunityKey opp \<in> set seen then dedupe seen rest
      else opp # dedupe (getOpportunityKey opp # seen) rest)"

definition filterAndDedupe :: "ArbitrageOpportunity list \<Rightarrow> ArbitrageOpportunity list" where
  "filterAndDedupe opps = dedupe [] (sortByProfit opps)"

definition trackOne ::
  "int \<Rightarrow> ArbitrageOpportunity \<Rightarrow> (string \<times> TrackedOpportunity) list
     \<Rightarrow> (string \<times> TrackedOpportunity) list" where
  "trackOne now opp tracked =
     (let key = getOpportunityKey opp
      in case map_of tracked key of
           Some existing \<Rightarrow>
             (let h = priceHistory existing @ [(now, spread opp)]
              in AList.update key
                   (existing\<lparr>lastSeenAt := now, seenCount := seenCount existing + 1,
                              opportunity := opp,
                              priceHistory := (if 10 < length h then tl h else h)\<rparr>) tracked)
         | None \<Rightarrow>
             AList.update key
               \<lparr>opportunity = opp, firstSeenAt = now, lastSeenAt = now, seenCount = 1,
                priceHistory = [(now, spread opp)], executed = False\<rparr> tracked)"

definition updateTracking ::
  "int \<Rightarrow> ArbitrageOpportunity list \<Rightarrow> (string \<times> TrackedOpportunity) list
     \<Rightarrow> (string \<times> TrackedOpportunity) list" where
  "updateTracking now opps tracked = fold (trackOne now) opps tracked"

fun getNewOpportunities ::
  "(string \<times> TrackedOpportunity) list \<Rightarrow> ArbitrageOpportunity list \<Rightarrow> ArbitrageOpportunity list" where
  "getNewOpportunities tracked [] = []"
| "getNewOpportunities tracked (opp # rest) =
     (case map_of tracked (getOpportunityKey opp) of
        None \<Rightarrow> opp # getNewOpportunities tracked rest
      | Some t \<Rightarrow>
          (if seenCount t = 1 then opp # getNewOpportunities tracked rest
           else if 1/2 < \<bar>profitPercent opp - profitPercent (opportunity t)\<bar>
           then opp # getNewOpportunities tracked rest
           else getNewOpportunities tracked rest))"

definition OPPORTUNITY_EXPIRY_MS :: int where
  "OPPORTUNITY_EXPIRY_MS = 5 * 60 * 1000"

definition expireOldOpportunities ::
  "int \<Rightarrow> (string \<times> TrackedOpportunity) list \<Rightarrow> (string \<times> TrackedOpportunity) list" where
  "expireOldOpportunities now tracked =
     filter (\<lambda>kt. \<not> OPPORTUNITY_EXPIRY_MS < now - lastSeenAt (snd kt)) tracked"

text \<open>
  \<open>detect\<close>, from the point where the detectors have returned: \<open>allOpportunities\<close> is the
  flattened list of their results. It returns the tracked map after \<open>updateTracking\<close>
  and the \<open>opportunities\<close> of the result.
\<close>

definition detect ::
  "(string \<times> TrackedOpportunity) list \<Rightarrow> int \<Rightarrow> ArbitrageOpportunity list
     \<Rightarrow> (string \<times> TrackedOpportunity) list \<times> ArbitrageOpportunity list" where
  "detect tracked now allOpportunities =
     (let filteredOpportunities = filterAndDedupe allOpportunities
      in (updateTracking now filteredOpportunities tracked, filteredOpportunities))"

text \<open>
  One detection cycle as both callers run it (\<open>runDetectionCycle\<close> in arbitrageRunner.ts
  and \<open>detectArbitrage\<close> in the web server): \<open>detect\<close>, then \<open>getNewOpportunities\<close> on its
  result, against the tracked map that \<open>detect\<close> has left.
\<close>

definition detectionCycle ::
  "(string \<times> TrackedOpportunity) list \<Rightarrow> int \<Rightarrow> ArbitrageOpportunity list
     \<Rightarrow> (string \<times> TrackedOpportunity) list \<times> ArbitrageOpportunity list" where
  "detectionCycle tracked now allOpportunities =
     (let r = detect tracked now allOpportunities
      in (fst r, getNewOpportunities (fst r) (snd r)))"

text \<open>The tracked maps an engine can hold: empty at construction, then cycles and expiries.\<close>

inductive engineReachable :: "(string \<times> TrackedOpportunity) list \<Rightarrow> bool" where
  e_new: "engineReachable []"
| e_detect: "engineReachable tracked \<Longrightarrow> engineReachable (fst (detect tracked now opps))"
| e_expire: "engineReachable tracked \<Longrightarrow> engineReachable (expireOldOpportunities now tracked)"

definition trackedKeysCanonical :: "(string \<times> TrackedOpportunity) list \<Rightarrow> bool" where
  "trackedKeysCanonical tracked =
     list_all (\<lambda>kt. fst kt = getOpportunityKey (opportunity (snd kt))) tracked"

section \<open>QuestionSimilarityMatcher (second part of arbitrage/detectors/crossMarketDetector.ts)\<close>

record ExtractedEntities =
  names :: "string list"
  dates :: "string list"
  numbers :: "string list"
  keyword_list :: "string list"

text \<open>
  A market as \<open>compareMarkets\<close> sees it. The regular expressions of the entity extractor
  and of \<open>extractSubject\<close> are not modelled: \<open>entities\<close> is the value of
  \<open>entityCache.get(id) || entityExtractor.extract(question)\<close>, \<open>subject\<close> the value of
  \<open>subjectCache.get(id) ?? extractSubject(question)\<close> (\<open>None\<close> for \<open>null\<close>), and
  \<open>normalizedWords\<close> the value of \<open>normalizeQuestion(question).split(' ')\<close>.
\<close>

record MarketFacts =
  market_id :: string
  question :: string
  entities :: ExtractedEntities
  subject :: "string option"
  normalizedWords :: "string list"

datatype MatchType = exact | inverse | related

record MarketMatch =
  match_market1Id :: string
  match_market1Question :: string
  match_market2Id :: string
  match_market2Question :: string
  similarityScore :: real
  matchType :: MatchType
  sharedEntities :: "string list"

text \<open>
  \<open>jaccardSimilarity\<close> on the sets built from two arrays: \<open>remdups\<close> is \<open>new Set(...)\<close>.
\<close>

definition jaccardSimilarity :: "'a list \<Rightarrow> 'a list \<Rightarrow> real" where
  "jaccardSimilarity xs ys =
     (let set1 = remdups xs; set2 = remdups ys
      in if set1 = [] \<and> set2 = [] then 0
         else (let intersection = filter (\<lambda>x. x \<in> set set2) set1;
                   union = remdups (set1 @ set2)
               in real (length intersection) / real (length union)))"

text \<open>
  White space as the regular expression \<open>\s\<close> sees it, among the eight-bit characters.
\<close>

definition isSpace :: "char \<Rightarrow> bool" where
  "isSpace c = (c \<in> set [CHR 0x09, CHR 0x0A, CHR 0x0B, CHR 0x0C, CHR 0x0D, CHR 0x20, CHR 0xA0])"

text \<open>
  \<open>s.split(/\s+/)\<close>: the pieces between maximal runs of white space, with an empty
  first or last piece when the string starts or ends with white space. \<open>cur\<close> is the
  piece being read, reversed; \<open>inWs\<close> says that the previous character was white space.
\<close>

fun splitWsAux :: "bool \<Rightarrow> string \<Rightarrow> string \<Rightarrow> string list" where
  "splitWsAux inWs cur [] = [rev cur]"
| "splitWsAux inWs cur (c # cs) =
     (if isSpace c then (if inWs then splitWsAux True cur cs
                         else rev cur # splitWsAux True [] cs)
      else splitWsAux False (c # cur) cs)"

definition splitWs :: "string \<Rightarrow> string list" where
  "splitWs s = splitWsAux False [] s"

definition subjectWords :: "string \<Rightarrow> string list" where
  "subjectWords s = filter (\<lambda>w. 2 < length w) (splitWs s)"

text \<open>
  The first block of \<open>compareMarkets\<close>, the rejection of competing alternatives.
  \<open>subject1 && subject2\<close> holds when neither is \<open>null\<close> nor the empty string.
\<close>

definition subjectRuleRejects :: "string option \<Rightarrow> string option \<Rightarrow> bool" where
  "subjectRuleRejects subject1 subject2 =
     (case subject1 of
        None \<Rightarrow> False
      | Some s1 \<Rightarrow>
          (case subject2 of
             None \<Rightarrow> False
           | Some s2 \<Rightarrow>
               s1 \<noteq> [] \<and> s2 \<noteq> [] \<and> s1 \<noteq> s2 \<and>
               jaccardSimilarity (subjectWords s1) (subjectWords s2) < 1/2))"

text \<open>
  The rest of \<open>compareMarkets\<close>, after the subject block. \<open>isInverse\<close> is the value of
  \<open>detectInverseRelationship\<close> on the two questions.
\<close>

definition scoreMarkets :: "MarketFacts \<Rightarrow> MarketFacts \<Rightarrow> bool \<Rightarrow> MarketMatch option" where
  "scoreMarkets market1 market2 isInverse =
     (let entities1 = entities market1; entities2 = entities market2;
          nameOverlap = jaccardSimilarity (names entities1) (names entities2);
          dateOverlap = jaccardSimilarity (dates entities1) (dates entities2);
          numberOverlap = jaccardSimilarity (numbers entities1) (numbers entities2);
          keywordOverlap = jaccardSimilarity (keyword_list entities1) (keyword_list entities2);
          wordOverlap = jaccardSimilarity (normalizedWords market1) (normalizedWords market2)
      in if nameOverlap < 3/10 then None
         else (let score = nameOverlap * (45/100) + dateOverlap * (15/100)
                           + numberOverlap * (1/10) + keywordOverlap * (1/10)
                           + wordOverlap * (2/10)
               in if score < 1/2 then None
                  else (let sharedNames = filter (\<lambda>n. n \<in> set (names entities2)) (names entities1);
                            sharedDates = filter (\<lambda>d. d \<in> set (dates entities2)) (dates entities1)
                        in if sharedNames = [] then None
                           else Some \<lparr>match_market1Id = market_id market1,
                                      match_market1Question = question market1,
                                      match_market2Id = market_id market2,
                                      match_market2Question = question market2,
                                      similarityScore = score,
                                      matchType = (if isInverse then inverse else exact),
                                      sharedEntities = sharedNames @ sharedDates\<rparr>)))"

definition compareMarkets :: "MarketFacts \<Rightarrow> MarketFacts \<Rightarrow> bool \<Rightarrow> MarketMatch option" where
  "compareMarkets market1 market2 isInverse =
     (if subjectRuleRejects (subject market1) (subject market2) then None
      else scoreMarkets market1 market2 isInverse)"

section \<open>The sizing rule in the words of the specification\<close>

text \<open>
  Fractional Kelly as the specification states it: the win probability is the confidence
  clamped to \<open>[0.5, 0.95]\<close>, the odds are the expected profit fraction over \<open>0.02\<close>, the
  raw fraction \<open>(odds * p - q) / odds\<close> is halved and clamped to \<open>[0.01, 0.25]\<close>.
\<close>

definition spec_kellyFraction :: "real \<Rightarrow> real \<Rightarrow> real" where
  "spec_kellyFraction conf profitPct =
     (let p = min (95/100) (max (1/2) conf);
          q = 1 - p;
          odds = (profitPct / 100) / (2/100);
          rawKelly = (odds * p - q) / odds
      in min (1/4) (max (1/100) (rawKelly * (1/2))))"

text \<open>
  The dollar size as the specification states it: the fraction of the bankroll, capped by
  the maximal position size and by a quarter of the bankroll, then floored at five
  dollars; zero below a bankroll of ten dollars.
\<close>

definition spec_positionSize :: "real \<Rightarrow> real \<Rightarrow> real \<Rightarrow> real" where
  "spec_positionSize bank maxPos kf =
     (if bank < 10 then 0 else max 5 (min (min (bank * kf) maxPos) (bank * (1/4))))"

section \<open>Example run of the paper-trading executor\<close>

definition exampleDraws :: Draws where
  "exampleDraws = \<lparr>rndLeg1 = 1/100, rndLeg2 = 1/2, rndPartial = 1/2, rndFill = 1/2,
     rndNoise = 1/2\<rparr>"

definition outcomeState :: "ExecOutcome \<Rightarrow> PaperTradingExecutor option" where
  "outcomeState r = (case r of Executed st tr \<Rightarrow> Some st | _ \<Rightarrow> None)"

definition outcomeTrade :: "ExecOutcome \<Rightarrow> PaperTrade option" where
  "outcomeTrade r = (case r of Executed st tr \<Rightarrow> Some tr | _ \<Rightarrow> None)"

section \<open>Auxiliary notions for the engine\<close>

text \<open>
  \<open>trackedEntry\<close> is the entry that \<open>updateTracking\<close> stores for an opportunity, given
  the entry found under its key; \<open>reportedNew\<close> is the test of \<open>getNewOpportunities\<close>;
  \<open>seenAtLeastOnce\<close> says that every tracked entry has a positive \<open>seenCount\<close>.
\<close>

definition trackedEntry ::
  "int \<Rightarrow> ArbitrageOpportunity \<Rightarrow> TrackedOpportunity option \<Rightarrow> TrackedOpportunity" where
  "trackedEntry now opp old =
     (case old of
        Some existing \<Rightarrow>
          (let h = priceHistory existing @ [(now, spread opp)]
           in existing\<lparr>lastSeenAt := now, seenCount := seenCount existing + 1,
                        opportunity := opp,
                        priceHistory := (if 10 < length h then tl h else h)\<rparr>)
      | None \<Rightarrow>
          \<lparr>opportunity = opp, firstSeenAt = now, lastSeenAt = now, seenCount = 1,
           priceHistory = [(now, spread opp)], executed = False\<rparr>)"

definition seenAtLeastOnce :: "(string \<times> TrackedOpportunity) list \<Rightarrow> bool" where
  "seenAtLeastOnce tracked = list_all (\<lambda>kt. 1 \<le> seenCount (snd kt)) tracked"

definition reportedNew :: "(string \<times> TrackedOpportunity) list \<Rightarrow> ArbitrageOpportunity \<Rightarrow> bool" where
  "reportedNew tracked opp =
     (case map_of tracked (getOpportunityKey opp) of
        None \<Rightarrow> True
      | Some t \<Rightarrow> seenCount t = 1 \<or> 1/2 < \<bar>profitPercent opp - profitPercent (opportunity t)\<bar>)"

definition exampleOpp8 :: ArbitrageOpportunity where
  "exampleOpp8 = exampleOpp\<lparr>profitPercent := 8\<rparr>"

definition exampleOpp12 :: ArbitrageOpportunity where
  "exampleOpp12 = exampleOpp\<lparr>profitPercent := 12\<rparr>"

section \<open>Example markets for the matcher\<close>

text \<open>
  Each example gives the entities, the subject and the normalized words that the
  extractor's patterns yield on the question shown.
\<close>

definition marketLA1 :: MarketFacts where
  "marketLA1 = \<lparr>market_id = ''a'', question = ''Will LA win the NBA Finals 2025?'',
     entities = \<lparr>names = [''la'', ''nba''], dates = [''2025''], numbers = [''2025''],
                 keyword_list = [''win'', ''finals'']\<rparr>,
     subject = Some ''la'',
     normalizedWords = [''will'', ''la'', ''win'', ''the'', ''nba'', ''finals'', ''2025'']\<rparr>"

definition marketLA2 :: MarketFacts where
  "marketLA2 = \<lparr>market_id = ''b'', question = ''Will LA win the 2025 NBA Finals?'',
     entities = \<lparr>names = [''la'', ''nba''], dates = [''2025''], numbers = [''2025''],
                 keyword_list = [''win'', ''finals'']\<rparr>,
     subject = Some ''la'',
     normalizedWords = [''will'', ''la'', ''win'', ''the'', ''2025'', ''nba'', ''finals'']\<rparr>"

definition marketKnights :: MarketFacts where
  "marketKnights = \<lparr>market_id = ''k'',
     question = ''Will the Golden Knights win the Stanley Cup?'',
     entities = \<lparr>names = [''golden knights'', ''stanley cup''], dates = [], numbers = [],
                 keyword_list = [''win'', ''cup'']\<rparr>,
     subject = Some ''golden knights'',
     normalizedWords = [''will'', ''the'', ''golden'', ''knights'', ''win'', ''the'',
                        ''stanley'', ''cup'']\<rparr>"

definition marketPanthers :: MarketFacts where
  "marketPanthers = \<lparr>market_id = ''p'',
     question = ''Will the Florida Panthers win the Stanley Cup?'',
     entities = \<lparr>names = [''florida panthers'', ''stanley cup''], dates = [], numbers = [],
                 keyword_list = [''win'', ''cup'']\<rparr>,
     subject = Some ''florida panthers'',
     normalizedWords = [''will'', ''the'', ''florida'', ''panthers'', ''win'', ''the'',
                        ''stanley'', ''cup'']\<rparr>"

definition marketBitcoin :: MarketFacts where
  "marketBitcoin = \<lparr>market_id = ''c'',
     question = ''Will Bitcoin reach 100k in 2025?'',
     entities = \<lparr>names = [''will bitcoin''], dates = [''2025''], numbers = [''100k'', ''2025''],
                 keyword_list = [''bitcoin'', ''reach'']\<rparr>,
     subject = None,
     normalizedWords = [''will'', ''bitcoin'', ''reach'', ''100k'', ''in'', ''2025'']\<rparr>"

section \<open>Admission control\<close>

lemma passed_mkCheck [simp]: "passed (mkCheck n p r) = p"
  by (simp add: mkCheck_def)

lemma find_None_iff_all: "(find P xs = None) = (\<forall>x \<in> set xs. \<not> P x)"
  by (induction xs) auto

lemma approved_iff_all_passed:
  "approved (snd (checkPreExecution s now opp orderSizeUsd)) =
     (passed (checkPositionLimit (checkDailyReset s now) opp orderSizeUsd) \<and>
      passed (checkTotalExposure (checkDailyReset s now) orderSizeUsd) \<and>
      passed (checkDailyLoss (checkDailyReset s now)) \<and>
      passed (checkLiquidity (checkDailyReset s now) opp) \<and>
      passed (checkCooldown (checkDailyReset s now) now) \<and>
      passed (checkMinProfitability opp orderSizeUsd))"
  by (simp add: checkPreExecution_def Let_def find_None_iff_all)

text \<open>
  Claim C1. \<open>checkPreExecution\<close> approves exactly when the position-limit, total-exposure,
  daily-loss, liquidity, cooldown and profitability checks all pass on the state left by
  the daily reset; the result lists these six checks, so a single failing check makes
  the result rejected.
\<close>

theorem checkPreExecution_approved_iff:
  "approved (snd (checkPreExecution s now opp orderSizeUsd)) =
     (passed (checkPositionLimit (checkDailyReset s now) opp orderSizeUsd) \<and>
      passed (checkTotalExposure (checkDailyReset s now) orderSizeUsd) \<and>
      passed (checkDailyLoss (checkDailyReset s now)) \<and>
      passed (checkLiquidity (checkDailyReset s now) opp) \<and>
      passed (checkCooldown (checkDailyReset s now) now) \<and>
      passed (checkMinProfitability opp orderSizeUsd))
   \<and> checks (snd (checkPreExecution s now opp orderSizeUsd)) =
       [checkPositionLimit (checkDailyReset s now) opp orderSizeUsd,
        checkTotalExposure (checkDailyReset s now) orderSizeUsd,
        checkDailyLoss (checkDailyReset s now),
        checkLiquidity (checkDailyReset s now) opp,
        checkCooldown (checkDailyReset s now) now,
        checkMinProfitability opp orderSizeUsd]
   \<and> approved (snd (checkPreExecution s now opp orderSizeUsd)) =
       list_all passed (checks (snd (checkPreExecution s now opp orderSizeUsd)))"
  by (simp add: checkPreExecution_def Let_def find_None_iff_all)

lemma example_checks_pass:
  "passed (checkPositionLimit (checkDailyReset (newRiskManager exampleLimits 0) 10000) exampleOpp 100)
   \<and> passed (checkTotalExposure (checkDailyReset (newRiskManager exampleLimits 0) 10000) 100)
   \<and> passed (checkDailyLoss (checkDailyReset (newRiskManager exampleLimits 0) 10000))
   \<and> passed (checkLiquidity (checkDailyReset (newRiskManager exampleLimits 0) 10000) exampleOpp)
   \<and> passed (checkCooldown (checkDailyReset (newRiskManager exampleLimits 0) 10000) 10000)
   \<and> passed (checkMinProfitability exampleOpp 100)"
  by (simp add: Let_def checkDailyReset_def newRiskManager_def
        getNextMidnight_def msPerDay_def exampleLimits_def exampleOpp_def
        checkPositionLimit_def checkTotalExposure_def checkDailyLoss_def checkLiquidity_def
        legsMinLiquidity_def checkCooldown_def checkMinProfitability_def)

lemma example_position_check_fails:
  "\<not> passed (checkPositionLimit (checkDailyReset (newRiskManager exampleLimits 0) 10000) exampleOpp 2000)"
  by (simp add: Let_def checkDailyReset_def newRiskManager_def
        getNextMidnight_def msPerDay_def exampleLimits_def exampleOpp_def checkPositionLimit_def)

theorem checkPreExecution_approved_iff_witness:
  "approved (snd (checkPreExecution (newRiskManager exampleLimits 0) 10000 exampleOpp 100))
   \<and> \<not> approved (snd (checkPreExecution (newRiskManager exampleLimits 0) 10000 exampleOpp 2000))"
  using checkPreExecution_approved_iff [of "newRiskManager exampleLimits 0" 10000 exampleOpp 100]
        checkPreExecution_approved_iff [of "newRiskManager exampleLimits 0" 10000 exampleOpp 2000]
        example_checks_pass example_position_check_fails
  by blast

section \<open>Emergency stop\<close>

lemma limits_checkDailyReset [simp]: "limits (checkDailyReset s now) = limits s"
  by (simp add: checkDailyReset_def resetDaily_def)

lemma totalExposure_checkDailyReset [simp]:
  "totalExposure (checkDailyReset s now) = totalExposure s"
  by (simp add: checkDailyReset_def resetDaily_def)

lemma exposureOf_nonneg: "0 \<le> exposureOf ps"
  by (induction ps) (auto simp: exposureOf_def)

lemma reachable_exposure_nonneg: "reachable s \<Longrightarrow> 0 \<le> totalExposure s"
  by (induction rule: reachable.induct)
     (auto simp: newRiskManager_def checkPreExecution_def Let_def updateAfterExecution_def
        resetDaily_def emergencyStop_def exposureOf_nonneg)

lemma later_reachable: "later s t \<Longrightarrow> reachable s \<Longrightarrow> reachable t"
  by (induction rule: later.induct) (auto intro: reachable.intros)

lemma later_limits_stopped:
  "later s t \<Longrightarrow> maxTotalExposureUsd (limits s) = 0 \<Longrightarrow> maxTotalExposureUsd (limits t) = 0"
  by (induction rule: later.induct)
     (auto simp: checkPreExecution_def Let_def updateAfterExecution_def
        resetDaily_def emergencyStop_def)

text \<open>
  Claim C8. On a risk manager in a reachable state, \<open>emergencyStop\<close> sets the two limits
  \<open>maxTotalExposureUsd\<close> and \<open>maxDailyLossUsd\<close> to zero and leaves the other limits, the
  positions, the daily profit and volume, the time of the last trade, the exposure and
  the reset boundary as they were; in every state that later method calls lead to,
  \<open>checkPreExecution\<close> rejects every positive order size.
\<close>

theorem emergencyStop_frame_and_block:
  assumes "reachable s"
  shows "limits (emergencyStop s) = (limits s)\<lparr>maxTotalExposureUsd := 0, maxDailyLossUsd := 0\<rparr>
       \<and> positions (emergencyStop s) = positions s
       \<and> dailyPnL (emergencyStop s) = dailyPnL s
       \<and> dailyVolume (emergencyStop s) = dailyVolume s
       \<and> lastTradeTime (emergencyStop s) = lastTradeTime s
       \<and> totalExposure (emergencyStop s) = totalExposure s
       \<and> dailyReset (emergencyStop s) = dailyReset s
       \<and> (\<forall>t now opp orderSizeUsd.
             later (emergencyStop s) t \<and> 0 < orderSizeUsd \<longrightarrow>
             \<not> approved (snd (checkPreExecution t now opp orderSizeUsd)))"
proof -
  have blocked: "\<not> approved (snd (checkPreExecution t now opp orderSizeUsd))"
    if l: "later (emergencyStop s) t" and pos: "0 < orderSizeUsd"
    for t now opp orderSizeUsd
  proof -
    have "reachable (emergencyStop s)" using assms by (rule reachable.r_stop)
    with l have "reachable t" by (rule later_reachable)
    then have e: "0 \<le> totalExposure t" by (rule reachable_exposure_nonneg)
    have z: "maxTotalExposureUsd (limits t) = 0"
      using l by (rule later_limits_stopped) (simp add: emergencyStop_def)
    have "\<not> passed (checkTotalExposure (checkDailyReset t now) orderSizeUsd)"
      using e z pos by (simp add: checkTotalExposure_def Let_def)
    then show ?thesis by (simp add: approved_iff_all_passed)
  qed
  show ?thesis using blocked by (simp add: emergencyStop_def)
qed

lemma example_approved_before_stop:
  "approved (snd (checkPreExecution (newRiskManager exampleLimits 0) 10000 exampleOpp 100))"
  using example_checks_pass by (simp add: approved_iff_all_passed)

theorem emergencyStop_frame_and_block_witness:
  "reachable (newRiskManager exampleLimits 0)
   \<and> later (emergencyStop (newRiskManager exampleLimits 0))
        (updateAfterExecution (emergencyStop (newRiskManager exampleLimits 0)) 1000 ''m1'' BUY 100 (2/5) 0)
   \<and> (0::real) < 100
   \<and> approved (snd (checkPreExecution (newRiskManager exampleLimits 0) 10000 exampleOpp 100))
   \<and> \<not> approved (snd (checkPreExecution
         (updateAfterExecution (emergencyStop (newRiskManager exampleLimits 0)) 1000 ''m1'' BUY 100 (2/5) 0)
         10000 exampleOpp 100))"
proof -
  have r: "reachable (newRiskManager exampleLimits 0)" by (rule reachable.r_new)
  have l: "later (emergencyStop (newRiskManager exampleLimits 0))
        (updateAfterExecution (emergencyStop (newRiskManager exampleLimits 0)) 1000 ''m1'' BUY 100 (2/5) 0)"
    by (rule later.l_update) (rule later.l_refl)
  show ?thesis
    using r l example_approved_before_stop emergencyStop_frame_and_block [OF r] by simp
qed

section \<open>Positions after an execution\<close>

lemma set_alist_update: "set (AList.update k v al) \<subseteq> insert (k, v) (set al)"
  by (induction al) auto

lemma set_alist_delete: "set (AList.delete k al) \<subseteq> set al"
  by (induction al) auto

lemma list_all_update:
  "list_all P al \<Longrightarrow> P (k, v) \<Longrightarrow> list_all P (AList.update k v al)"
  using set_alist_update [of k v al] by (auto simp: list_all_iff)

lemma list_all_delete: "list_all P al \<Longrightarrow> list_all P (AList.delete k al)"
  using set_alist_delete [of k al] by (auto simp: list_all_iff)

lemma updateAfterExecution_other_markets:
  "k \<noteq> mid \<Longrightarrow>
     map_of (positions (updateAfterExecution s now mid side sizeUsd price pnl)) k
       = map_of (positions s) k"
  by (simp add: updateAfterExecution_def Let_def update_conv' delete_conv' split: option.splits)

lemma updateAfterExecution_nets_existing:
  assumes "map_of (positions s) mid = Some e"
  shows "map_of (positions (updateAfterExecution s now mid side sizeUsd price pnl)) mid =
           (let net = (if side = BUY then pos_size e + sizeUsd else pos_size e - sizeUsd)
            in if net \<le> 0 then None
               else Some (e\<lparr>pos_size := net, currentPrice := price,
                            unrealizedPnl := (price - avgEntryPrice e) * net\<rparr>))"
  using assms
  by (simp add: updateAfterExecution_def Let_def update_conv' delete_conv')

lemma alist_update_fresh:
  "k \<notin> fst ` set al \<Longrightarrow> AList.update k v al = al @ [(k, v)]"
  by (induction al) auto

lemma updateAfterExecution_opens_on_buy:
  assumes "map_of (positions s) mid = None"
  shows "positions (updateAfterExecution s now mid BUY sizeUsd price pnl) =
           positions s @ [(mid, \<lparr>marketId = mid, outcome = 1, pos_size = sizeUsd,
                                 avgEntryPrice = price, currentPrice = price,
                                 unrealizedPnl = 0, openedAt = now\<rparr>)]"
proof -
  have "mid \<notin> fst ` set (positions s)" using assms by (simp add: map_of_eq_None_iff)
  then have "AList.update mid v (positions s) = positions s @ [(mid, v)]" for v
    by (rule alist_update_fresh)
  with assms show ?thesis by (simp add: updateAfterExecution_def Let_def)
qed

lemma updateAfterExecution_sell_without_position:
  "map_of (positions s) mid = None \<Longrightarrow>
     positions (updateAfterExecution s now mid SELL sizeUsd price pnl) = positions s"
  by (simp add: updateAfterExecution_def Let_def)

lemma updateAfterExecution_exposure:
  "exposureConsistent (updateAfterExecution s now mid side sizeUsd price pnl)"
  by (simp add: updateAfterExecution_def Let_def exposureConsistent_def)

lemma updateAfterExecution_distinct:
  "distinct (map fst (positions s)) \<Longrightarrow>
     distinct (map fst (positions (updateAfterExecution s now mid side sizeUsd price pnl)))"
  by (simp add: updateAfterExecution_def Let_def distinct_update distinct_delete
        split: option.splits)

lemma updateAfterExecution_keeps_positive:
  assumes "positionsPositive s"
      and "side = BUY \<and> map_of (positions s) mid = None \<longrightarrow> 0 < sizeUsd"
  shows "positionsPositive (updateAfterExecution s now mid side sizeUsd price pnl)"
  using assms
  by (cases side)
     (auto simp: updateAfterExecution_def Let_def positionsPositive_def
        list_all_update list_all_delete split: option.splits)


section \<open>Position sizing\<close>

lemma clamp_bounds:
  fixes a b x :: real
  shows "a \<le> b \<Longrightarrow> a \<le> min b (max a x) \<and> min b (max a x) \<le> b"
  by (auto simp: min_def max_def)

lemma kelly_bounds: "1/100 \<le> calculateKellyFraction c p \<and> calculateKellyFraction c p \<le> 1/4"
proof (cases "(p / 100) / (2/100) = 0")
  case True
  then show ?thesis by (simp only: calculateKellyFraction_def Let_def if_True) simp
next
  case False
  have "(1/100::real) \<le> 1/4" by simp
  from clamp_bounds [OF this] False show ?thesis
    by (simp only: calculateKellyFraction_def Let_def if_False)
qed

lemma kelly_eq_spec:
  assumes "p \<noteq> 0"
  shows "calculateKellyFraction c p = spec_kellyFraction c p"
proof -
  have "(p / 100) / (2/100) \<noteq> 0" using assms by simp
  then show ?thesis
    by (simp only: calculateKellyFraction_def spec_kellyFraction_def Let_def if_False)
qed

lemma kelly_zero_profit: "calculateKellyFraction c 0 = 1/100"
  by (simp add: calculateKellyFraction_def)

lemma size_eq_spec:
  "calculatePositionSize cfg st opp =
     spec_positionSize (bankroll st) (risk_maxPositionSizeUsd cfg)
       (calculateKellyFraction (confidenceScore opp) (profitPercent opp))"
  by (simp add: calculatePositionSize_def spec_positionSize_def Let_def max.commute)

text \<open>
  Claim C5. The Kelly fraction computed by the executor is the one the specification
  describes (for a zero expected profit, where the odds are zero, it is the lower clamp
  \<open>0.01\<close>), the position size is the capped and floored dollar amount the specification
  describes, the size is zero below a bankroll of ten dollars, and whenever the size is not
  zero the Kelly fraction lies in \<open>[0.01, 0.25]\<close>.
\<close>

theorem kelly_position_sizing:
  "(profitPercent opp \<noteq> 0 \<longrightarrow>
      calculateKellyFraction (confidenceScore opp) (profitPercent opp)
        = spec_kellyFraction (confidenceScore opp) (profitPercent opp))
   \<and> (profitPercent opp = 0 \<longrightarrow>
      calculateKellyFraction (confidenceScore opp) (profitPercent opp) = 1/100)
   \<and> calculatePositionSize cfg st opp =
       spec_positionSize (bankroll st) (risk_maxPositionSizeUsd cfg)
         (calculateKellyFraction (confidenceScore opp) (profitPercent opp))
   \<and> (bankroll st < 10 \<longrightarrow> calculatePositionSize cfg st opp = 0)
   \<and> (calculatePositionSize cfg st opp \<noteq> 0 \<longrightarrow>
        1/100 \<le> calculateKellyFraction (confidenceScore opp) (profitPercent opp)
        \<and> calculateKellyFraction (confidenceScore opp) (profitPercent opp) \<le> 1/4)"
  using kelly_bounds [of "confidenceScore opp" "profitPercent opp"]
        kelly_eq_spec [of "profitPercent opp" "confidenceScore opp"]
        size_eq_spec [of cfg st opp] kelly_zero_profit [of "confidenceScore opp"]
  by (auto simp: spec_positionSize_def)

lemma example_kelly: "calculateKellyFraction (confidenceScore exampleOpp) (profitPercent exampleOpp) = 1/4"
  by (simp add: calculateKellyFraction_def exampleOpp_def Let_def)

lemma example_size: "calculatePositionSize exampleConfig (newExecutor 1000) exampleOpp = 250"
  by (simp add: calculatePositionSize_def example_kelly Let_def exampleConfig_def newExecutor_def)

theorem kelly_position_sizing_witness:
  "profitPercent exampleOpp \<noteq> 0
   \<and> calculatePositionSize exampleConfig (newExecutor 1000) exampleOpp \<noteq> 0
   \<and> spec_kellyFraction (confidenceScore exampleOpp) (profitPercent exampleOpp) = 1/4
   \<and> calculatePositionSize exampleConfig (newExecutor 1000) exampleOpp = 250
   \<and> calculatePositionSize exampleConfig (newExecutor 9) exampleOpp = 0"
  using kelly_position_sizing [of exampleOpp exampleConfig "newExecutor 1000"]
        kelly_position_sizing [of exampleOpp exampleConfig "newExecutor 9"]
        example_kelly example_size
  by (simp add: exampleOpp_def newExecutor_def)

text \<open>
  Claim C10. The five-dollar minimum is applied after both caps: for a bankroll in
  \<open>[10, 20)\<close> the position size is exactly five dollars, more than a quarter of the
  bankroll, and with a bankroll of at least ten dollars the size is five dollars when
  the configured maximal position size is below five dollars.
\<close>

theorem position_floor_overrides_caps:
  "(10 \<le> bankroll st \<and> bankroll st < 20 \<longrightarrow>
      calculatePositionSize cfg st opp = 5 \<and> bankroll st * (1/4) < calculatePositionSize cfg st opp)
   \<and> (10 \<le> bankroll st \<and> risk_maxPositionSizeUsd cfg < 5 \<longrightarrow>
      calculatePositionSize cfg st opp = 5 \<and> risk_maxPositionSizeUsd cfg < calculatePositionSize cfg st opp)"
  by (auto simp: calculatePositionSize_def Let_def min_def max_def)

theorem position_floor_overrides_caps_witness:
  "(10::real) \<le> bankroll (newExecutor 12) \<and> bankroll (newExecutor 12) < 20
   \<and> calculatePositionSize exampleConfig (newExecutor 12) exampleOpp = 5
   \<and> bankroll (newExecutor 12) * (1/4) = 3
   \<and> risk_maxPositionSizeUsd (exampleConfig\<lparr>risk_maxPositionSizeUsd := 3\<rparr>) < 5
   \<and> calculatePositionSize (exampleConfig\<lparr>risk_maxPositionSizeUsd := 3\<rparr>) (newExecutor 1000) exampleOpp = 5"
  using position_floor_overrides_caps [of "newExecutor 12" exampleConfig exampleOpp]
        position_floor_overrides_caps [of "newExecutor 1000" "exampleConfig\<lparr>risk_maxPositionSizeUsd := 3\<rparr>" exampleOpp]
  by (simp add: newExecutor_def)

section \<open>A failed first leg\<close>

lemma newExecutor_sel:
  "bankroll (newExecutor b) = b" "peakBalance (newExecutor b) = b"
  "maxDrawdown (newExecutor b) = 0" "tradeIdCounter (newExecutor b) = 0"
  "trades (newExecutor b) = []"
  by (simp_all add: newExecutor_def)

lemma example_clob:
  "simulateCLOBExecution exampleConfig exampleOpp 250 exampleDraws =
     Some \<lparr>leg1Failed = True, leg2Failed = False, fillRate = 1, totalSlippageBps = 415/2\<rparr>"
  by (simp add: simulateCLOBExecution_def estimate_def Let_def exampleConfig_def exampleOpp_def
        exampleDraws_def LEG_FAILURE_PROBABILITY_def PARTIAL_FILL_PROBABILITY_def
        calculatePriceImpact_def noiseFactor_def clampPrice_def)

lemma simulate_leg1Failed:
  "simulateCLOBExecution cfg opp ps d = Some ex \<Longrightarrow>
     leg1Failed ex = (rndLeg1 d < LEG_FAILURE_PROBABILITY)"
  by (auto simp: simulateCLOBExecution_def Let_def split: option.splits)

lemma execute_leg1_failure:
  assumes run: "execute cfg st opp t0 t1 d = Executed st' tr" and fail: "rndLeg1 d < 5/100"
  shows "bankroll st' = bankroll st \<and> balanceAfter tr = bankroll st
       \<and> realizedProfit tr = - positionSize tr * (1/1000) \<and> \<not> success tr"
proof -
  define ps where "ps = calculatePositionSize cfg st opp"
  have pos: "\<not> ps \<le> 0"
  proof
    assume "ps \<le> 0"
    then have "execute cfg st opp t0 t1 d = Skipped"
      by (simp add: execute_def Let_def ps_def)
    with run show False by simp
  qed
  obtain ex where ex: "simulateCLOBExecution cfg opp ps d = Some ex"
  proof (cases "simulateCLOBExecution cfg opp ps d")
    case None
    with pos have "execute cfg st opp t0 t1 d = OutsideModel"
      by (simp add: execute_def Let_def ps_def)
    with run show ?thesis by simp
  next
    case (Some a)
    then show ?thesis using that by blast
  qed
  have l1: "leg1Failed ex"
    using simulate_leg1Failed [OF ex] fail by (simp add: LEG_FAILURE_PROBABILITY_def)
  from run pos ex l1 show ?thesis
    by (simp add: execute_def Let_def ps_def [symmetric] split: if_splits) auto
qed

text \<open>
  Claim C2, on the code. With a confidence of 0.9, an expected profit of 5 percent and a
  bankroll of 1000 dollars the position is 250 dollars. When the first leg fails, the
  trade is recorded as unsuccessful with a realized profit of minus 25 cents, but the
  bankroll after the trade is 1000 dollars again: the fee is not taken from it.
\<close>

theorem execute_leg1_failure_example:
  "map_option bankroll (outcomeState (execute exampleConfig (newExecutor 1000) exampleOpp 0 600 exampleDraws)) = Some 1000
   \<and> map_option balanceAfter (outcomeTrade (execute exampleConfig (newExecutor 1000) exampleOpp 0 600 exampleDraws)) = Some 1000
   \<and> map_option positionSize (outcomeTrade (execute exampleConfig (newExecutor 1000) exampleOpp 0 600 exampleDraws)) = Some 250
   \<and> map_option realizedProfit (outcomeTrade (execute exampleConfig (newExecutor 1000) exampleOpp 0 600 exampleDraws)) = Some (- 1/4)
   \<and> map_option success (outcomeTrade (execute exampleConfig (newExecutor 1000) exampleOpp 0 600 exampleDraws)) = Some False
   \<and> map_option leg1Status (outcomeTrade (execute exampleConfig (newExecutor 1000) exampleOpp 0 600 exampleDraws)) = Some leg_failed"
proof -
  have "execute exampleConfig (newExecutor 1000) exampleOpp 0 600 exampleDraws =
          Executed ((newExecutor 1000)\<lparr>bankroll := 1000, peakBalance := 1000, maxDrawdown := 0,
                      tradeIdCounter := 1,
                      trades := [\<lparr>trade_id = 1, timestamp = 600, opportunityType = ''cross_market'',
                        trade_subType = None,
                        trade_market1Question = ''Will LA win the NBA Finals 2025?'',
                        trade_market2Question = Some ''Will LA win the 2025 NBA Finals?'',
                        positionSize = 250, kellyFraction = 1/4, expectedProfit = 25/2,
                        realizedProfit = - 1/4, trade_profitPercent = - 1/10,
                        leg1Status = leg_failed, leg2Status = Some leg_filled,
                        slippageBps = 415/2, executionTimeMs = 600, balanceAfter = 1000,
                        success = False, failureReason = Some ''Leg 1 execution failed''\<rparr>]\<rparr>)
            \<lparr>trade_id = 1, timestamp = 600, opportunityType = ''cross_market'',
              trade_subType = None,
              trade_market1Question = ''Will LA win the NBA Finals 2025?'',
              trade_market2Question = Some ''Will LA win the 2025 NBA Finals?'',
              positionSize = 250, kellyFraction = 1/4, expectedProfit = 25/2,
              realizedProfit = - 1/4, trade_profitPercent = - 1/10,
              leg1Status = leg_failed, leg2Status = Some leg_filled,
              slippageBps = 415/2, executionTimeMs = 600, balanceAfter = 1000,
              success = False, failureReason = Some ''Leg 1 execution failed''\<rparr>"
    by (simp add: execute_def example_size example_clob example_kelly Let_def newExecutor_sel
          typeName_def) (simp add: exampleOpp_def newExecutor_def)
  then show ?thesis by (simp add: outcomeState_def outcomeTrade_def)
qed

section \<open>Noise on a slippage estimate\<close>

lemma noiseFactor_range: "0 \<le> r \<Longrightarrow> r < 1 \<Longrightarrow> 4/5 \<le> noiseFactor r \<and> noiseFactor r < 6/5"
  unfolding noiseFactor_def by argo

lemma addNoise_bps:
  "addNoise est r = Some est' \<Longrightarrow>
     estimatedSlippageBps est' = max 0 (estimatedSlippageBps est * noiseFactor r)"
  by (auto simp: addNoise_def Let_def split: if_splits)

lemma addNoise_buy_consistent:
  assumes e: "estimate cfg sz liq True p = Some est"
      and unclamped: "1/100 \<le> p * (1 + estimatedSlippageBps est / 10000)"
                     "p * (1 + estimatedSlippageBps est / 10000) \<le> 99/100"
      and nz: "1 + estimatedSlippageBps est / 10000 \<noteq> 0"
  shows "map_option estimatedExecutionPrice (addNoise est r)
           = Some (spec_noisyPrice True p (estimatedSlippageBps est * noiseFactor r))"
proof -
  from e have liq: "liq \<noteq> 0" by (auto simp: estimate_def split: if_splits)
  define b where "b = estimatedSlippageBps est"
  from e liq have price: "estimatedExecutionPrice est = clampPrice (p * (1 + b / 10000))"
    unfolding b_def by (auto simp: estimate_def Let_def)
  have "clampPrice (p * (1 + b / 10000)) = p * (1 + b / 10000)"
    using unclamped unfolding b_def clampPrice_def by (simp add: min_def max_def)
  with price have pe: "estimatedExecutionPrice est = p * (1 + b / 10000)" by simp
  have "estimatedExecutionPrice est / (1 + b / 10000) = p"
    using nz pe unfolding b_def by simp
  then show ?thesis
    using nz unfolding b_def by (simp add: addNoise_def Let_def spec_noisyPrice_def)
qed

text \<open>
  Claim C6, on the code. A sell of 100 dollars at price 0.5 into a liquidity of 10000
  dollars is estimated at 60 basis points and a price of 0.497. With a noise factor of
  1.1 the estimate becomes 66 basis points; the price shifted by 66 basis points in the
  direction of the sale is 0.4967, but \<open>addNoise\<close> returns a price above 0.497.
\<close>

theorem addNoise_sell_example:
  "map_option estimatedExecutionPrice (estimate exampleConfig 100 10000 False (1/2)) = Some (497/1000)
   \<and> map_option estimatedSlippageBps (estimate exampleConfig 100 10000 False (1/2)) = Some 60
   \<and> map_option estimatedSlippageBps
        (Option.bind (estimate exampleConfig 100 10000 False (1/2)) (\<lambda>e. addNoise e (3/4))) = Some 66
   \<and> map_option estimatedExecutionPrice
        (Option.bind (estimate exampleConfig 100 10000 False (1/2)) (\<lambda>e. addNoise e (3/4)))
       = Some (2501401/5030000)
   \<and> spec_noisyPrice False (1/2) 66 = 4967/10000
   \<and> (4967/10000 :: real) < 497/1000 \<and> (497/1000 :: real) < 2501401/5030000"
  by (simp add: estimate_def addNoise_def Let_def exampleConfig_def calculatePriceImpact_def
        clampPrice_def noiseFactor_def spec_noisyPrice_def)

section \<open>Deduplication and tracking\<close>

lemma trackOne_eq:
  "trackOne now opp tracked =
     AList.update (getOpportunityKey opp)
       (trackedEntry now opp (map_of tracked (getOpportunityKey opp))) tracked"
  by (simp add: trackOne_def trackedEntry_def Let_def split: option.splits)

lemma opportunity_trackedEntry [simp]: "opportunity (trackedEntry now opp old) = opp"
  by (simp add: trackedEntry_def Let_def split: option.splits)

lemma seenCount_trackedEntry:
  "seenCount (trackedEntry now opp old) = (case old of None \<Rightarrow> 1 | Some e \<Rightarrow> seenCount e + 1)"
  by (simp add: trackedEntry_def Let_def split: option.splits)

subsection \<open>Properties of \<open>dedupe\<close>\<close>

lemma dedupe_subset: "set (dedupe seen xs) \<subseteq> set xs"
  by (induction xs arbitrary: seen) auto

lemma dedupe_keys_fresh:
  "y \<in> set (dedupe seen xs) \<Longrightarrow> getOpportunityKey y \<notin> set seen"
proof (induction xs arbitrary: seen)
  case Nil
  then show ?case by simp
next
  case (Cons a xs)
  show ?case
  proof (cases "getOpportunityKey a \<in> set seen")
    case True
    with Cons.prems have "y \<in> set (dedupe seen xs)" by simp
    then show ?thesis by (rule Cons.IH)
  next
    case False
    with Cons.prems have "y = a \<or> y \<in> set (dedupe (getOpportunityKey a # seen) xs)" by simp
    then show ?thesis
    proof
      assume "y = a"
      with False show ?thesis by simp
    next
      assume "y \<in> set (dedupe (getOpportunityKey a # seen) xs)"
      then have "getOpportunityKey y \<notin> set (getOpportunityKey a # seen)" by (rule Cons.IH)
      then show ?thesis by simp
    qed
  qed
qed

lemma dedupe_distinct: "distinct (map getOpportunityKey (dedupe seen xs))"
proof (induction xs arbitrary: seen)
  case Nil
  then show ?case by simp
next
  case (Cons x xs)
  show ?case
  proof (cases "getOpportunityKey x \<in> set seen")
    case True
    then show ?thesis using Cons.IH by simp
  next
    case False
    have "getOpportunityKey x \<notin> getOpportunityKey ` set (dedupe (getOpportunityKey x # seen) xs)"
    proof
      assume "getOpportunityKey x \<in> getOpportunityKey ` set (dedupe (getOpportunityKey x # seen) xs)"
      then obtain y where y: "y \<in> set (dedupe (getOpportunityKey x # seen) xs)"
        and k: "getOpportunityKey y = getOpportunityKey x" by auto
      from dedupe_keys_fresh [OF y] k show False by simp
    qed
    then show ?thesis using False Cons.IH by simp
  qed
qed

lemma dedupe_keeps_best:
  assumes "sorted (map (\<lambda>opp. - profitPercent opp) xs)"
      and "x \<in> set xs" and "getOpportunityKey x \<notin> set seen"
  shows "\<exists>y \<in> set (dedupe seen xs).
           getOpportunityKey y = getOpportunityKey x \<and> profitPercent x \<le> profitPercent y"
  using assms
proof (induction xs arbitrary: seen)
  case Nil
  then show ?case by simp
next
  case (Cons a xs)
  from Cons.prems(1) have sorted_tl: "sorted (map (\<lambda>opp. - profitPercent opp) xs)"
    and head: "\<forall>z \<in> set xs. profitPercent z \<le> profitPercent a"
    by auto
  show ?case
  proof (cases "getOpportunityKey a \<in> set seen")
    case True
    with Cons.prems(3) have "x \<noteq> a" by auto
    with Cons.prems(2) have "x \<in> set xs" by simp
    from Cons.IH [OF sorted_tl this Cons.prems(3)] True show ?thesis by simp
  next
    case False
    show ?thesis
    proof (cases "getOpportunityKey x = getOpportunityKey a")
      case True
      have "profitPercent x \<le> profitPercent a"
        using Cons.prems(2) head by auto
      with True False show ?thesis by auto
    next
      case diff: False
      then have "x \<in> set xs" using Cons.prems(2) by auto
      moreover have "getOpportunityKey x \<notin> set (getOpportunityKey a # seen)"
        using diff Cons.prems(3) by simp
      ultimately obtain y where "y \<in> set (dedupe (getOpportunityKey a # seen) xs)"
        and "getOpportunityKey y = getOpportunityKey x" and "profitPercent x \<le> profitPercent y"
        using Cons.IH [OF sorted_tl] by blast
      with False show ?thesis by auto
    qed
  qed
qed

lemma filterAndDedupe_subset: "set (filterAndDedupe xs) \<subseteq> set xs"
  using dedupe_subset [of "[]" "sortByProfit xs"] by (simp add: filterAndDedupe_def sortByProfit_def)

lemma filterAndDedupe_distinct: "distinct (map getOpportunityKey (filterAndDedupe xs))"
  by (simp add: filterAndDedupe_def dedupe_distinct)

lemma filterAndDedupe_keeps_best:
  assumes "x \<in> set xs"
  shows "\<exists>y \<in> set (filterAndDedupe xs).
           getOpportunityKey y = getOpportunityKey x \<and> profitPercent x \<le> profitPercent y"
proof -
  have "sorted (map (\<lambda>opp. - profitPercent opp) (sortByProfit xs))"
    by (simp add: sortByProfit_def)
  moreover have "x \<in> set (sortByProfit xs)" using assms by (simp add: sortByProfit_def)
  ultimately show ?thesis
    unfolding filterAndDedupe_def by (rule dedupe_keeps_best) simp
qed

subsection \<open>Keys after \<open>updateTracking\<close>\<close>

lemma trackOne_keys:
  "map fst (trackOne now opp tracked) =
     (if getOpportunityKey opp \<in> set (map fst tracked) then map fst tracked
      else map fst tracked @ [getOpportunityKey opp])"
  by (simp only: trackOne_eq update_keys)

lemma trackOne_distinct:
  "distinct (map fst tracked) \<Longrightarrow> distinct (map fst (trackOne now opp tracked))"
  by (simp only: trackOne_eq distinct_update)

lemma updateTracking_distinct:
  "distinct (map fst tracked) \<Longrightarrow> distinct (map fst (updateTracking now opps tracked))"
  unfolding updateTracking_def
  by (induction opps arbitrary: tracked) (simp_all add: trackOne_distinct)

lemma updateTracking_keys_known:
  "getOpportunityKey ` set opps \<subseteq> set (map fst tracked) \<Longrightarrow>
     map fst (updateTracking now opps tracked) = map fst tracked"
  unfolding updateTracking_def
proof (induction opps arbitrary: tracked)
  case Nil
  then show ?case by simp
next
  case (Cons a opps)
  have k: "map fst (trackOne now a tracked) = map fst tracked"
    using Cons.prems by (simp add: trackOne_keys)
  have "getOpportunityKey ` set opps \<subseteq> set (map fst (trackOne now a tracked))"
    using Cons.prems by (simp only: k) auto
  from Cons.IH [OF this] k show ?case by simp
qed

lemma updateTracking_keys_superset:
  "set (map fst tracked) \<subseteq> set (map fst (updateTracking now opps tracked))"
  unfolding updateTracking_def
proof (induction opps arbitrary: tracked)
  case Nil
  then show ?case by simp
next
  case (Cons a opps)
  have "set (map fst tracked) \<subseteq> set (map fst (trackOne now a tracked))"
    by (auto simp: trackOne_keys)
  also have "\<dots> \<subseteq> set (map fst (fold (trackOne now) opps (trackOne now a tracked)))"
    by (rule Cons.IH)
  finally show ?case by simp
qed

lemma updateTracking_keys_cover:
  "getOpportunityKey ` set opps \<subseteq> set (map fst (updateTracking now opps tracked))"
proof (induction opps arbitrary: tracked)
  case Nil
  then show ?case by simp
next
  case (Cons a opps)
  have "getOpportunityKey a \<in> set (map fst (trackOne now a tracked))"
    by (auto simp: trackOne_keys)
  then have "getOpportunityKey a \<in> set (map fst (updateTracking now opps (trackOne now a tracked)))"
    using updateTracking_keys_superset [of "trackOne now a tracked" now opps] by blast
  moreover have "getOpportunityKey ` set opps
      \<subseteq> set (map fst (updateTracking now opps (trackOne now a tracked)))"
    by (rule Cons.IH)
  ultimately show ?case by (simp add: updateTracking_def)
qed

lemma redetect_same_keys:
  "map fst (updateTracking now2 opps (updateTracking now1 opps tracked))
     = map fst (updateTracking now1 opps tracked)"
  by (rule updateTracking_keys_known) (rule updateTracking_keys_cover)

lemma map_of_trackOne:
  "map_of (trackOne now opp tracked) =
     (map_of tracked)(getOpportunityKey opp \<mapsto>
        trackedEntry now opp (map_of tracked (getOpportunityKey opp)))"
  by (simp only: trackOne_eq update_conv')

lemma map_of_updateTracking:
  assumes "distinct (map getOpportunityKey opps)"
  shows "map_of (updateTracking now opps tracked) k =
           (case find (\<lambda>opp. getOpportunityKey opp = k) opps of
              None \<Rightarrow> map_of tracked k
            | Some opp \<Rightarrow> Some (trackedEntry now opp (map_of tracked k)))"
  using assms unfolding updateTracking_def
proof (induction opps arbitrary: tracked)
  case Nil
  then show ?case by simp
next
  case (Cons a opps)
  from Cons.prems have d: "distinct (map getOpportunityKey opps)"
    and fresh: "getOpportunityKey a \<notin> getOpportunityKey ` set opps" by auto
  note ih = Cons.IH [OF d, of "trackOne now a tracked"]
  show ?case
  proof (cases "getOpportunityKey a = k")
    case True
    with fresh have "\<forall>x \<in> set opps. getOpportunityKey x \<noteq> k"
      by (metis imageI)
    then have "find (\<lambda>opp. getOpportunityKey opp = k) opps = None"
      by (simp add: find_None_iff)
    with ih True show ?thesis by (simp add: map_of_trackOne)
  next
    case False
    then have "map_of (trackOne now a tracked) k = map_of tracked k"
      by (simp add: map_of_trackOne)
    with ih False show ?thesis by (simp split: option.splits)
  qed
qed

lemma find_key_distinct:
  "distinct (map getOpportunityKey opps) \<Longrightarrow> x \<in> set opps \<Longrightarrow>
     find (\<lambda>opp. getOpportunityKey opp = getOpportunityKey x) opps = Some x"
  by (induction opps) (auto simp: image_iff)

lemma tracked_after_update:
  assumes "distinct (map getOpportunityKey opps)" and "x \<in> set opps"
  shows "map_of (updateTracking now opps tracked) (getOpportunityKey x)
           = Some (trackedEntry now x (map_of tracked (getOpportunityKey x)))"
  by (simp add: map_of_updateTracking [OF assms(1)] find_key_distinct [OF assms])

lemma getNewOpportunities_filter:
  "getNewOpportunities tracked opps = filter (reportedNew tracked) opps"
  by (induction opps) (auto simp: reportedNew_def split: option.splits)

lemma seenAtLeastOnce_lookup:
  "seenAtLeastOnce tracked \<Longrightarrow> map_of tracked k = Some e \<Longrightarrow> 1 \<le> seenCount e"
  by (auto simp: seenAtLeastOnce_def list_all_iff dest!: map_of_SomeD)

lemma reportedNew_after_update:
  assumes d: "distinct (map getOpportunityKey opps)" and x: "x \<in> set opps"
      and s: "seenAtLeastOnce tracked"
  shows "reportedNew (updateTracking now opps tracked) x
           = (map_of tracked (getOpportunityKey x) = None)"
proof (cases "map_of tracked (getOpportunityKey x)")
  case None
  then show ?thesis
    by (simp add: reportedNew_def tracked_after_update [OF d x] seenCount_trackedEntry)
next
  case (Some e)
  with s have "1 \<le> seenCount e" by (rule seenAtLeastOnce_lookup)
  with Some show ?thesis
    by (simp add: reportedNew_def tracked_after_update [OF d x] seenCount_trackedEntry)
qed

lemma detectionCycle_reports_untracked:
  assumes "seenAtLeastOnce tracked"
  shows "snd (detectionCycle tracked now allOpps)
           = filter (\<lambda>opp. map_of tracked (getOpportunityKey opp) = None) (filterAndDedupe allOpps)"
proof -
  have "filter (reportedNew (updateTracking now (filterAndDedupe allOpps) tracked))
          (filterAndDedupe allOpps)
        = filter (\<lambda>opp. map_of tracked (getOpportunityKey opp) = None) (filterAndDedupe allOpps)"
    by (rule filter_cong [OF refl])
       (rule reportedNew_after_update [OF filterAndDedupe_distinct _ assms])
  then show ?thesis
    by (simp add: detectionCycle_def detect_def Let_def getNewOpportunities_filter)
qed

subsection \<open>Invariants of the tracked map\<close>

lemma trackOne_canonical:
  "trackedKeysCanonical tracked \<Longrightarrow> trackedKeysCanonical (trackOne now opp tracked)"
  unfolding trackedKeysCanonical_def trackOne_eq
  by (rule list_all_update) simp_all

lemma trackOne_seen:
  "seenAtLeastOnce tracked \<Longrightarrow> seenAtLeastOnce (trackOne now opp tracked)"
  unfolding seenAtLeastOnce_def trackOne_eq
  by (rule list_all_update) (simp_all add: seenCount_trackedEntry split: option.splits)

lemma updateTracking_canonical:
  "trackedKeysCanonical tracked \<Longrightarrow> trackedKeysCanonical (updateTracking now opps tracked)"
  unfolding updateTracking_def
  by (induction opps arbitrary: tracked) (simp_all add: trackOne_canonical)

lemma updateTracking_seen:
  "seenAtLeastOnce tracked \<Longrightarrow> seenAtLeastOnce (updateTracking now opps tracked)"
  unfolding updateTracking_def
  by (induction opps arbitrary: tracked) (simp_all add: trackOne_seen)

lemma engineReachable_invariant:
  "engineReachable tracked \<Longrightarrow>
     distinct (map fst tracked) \<and> trackedKeysCanonical tracked \<and> seenAtLeastOnce tracked"
proof (induction rule: engineReachable.induct)
  case e_new
  then show ?case by (simp add: trackedKeysCanonical_def seenAtLeastOnce_def)
next
  case (e_detect tracked now opps)
  then show ?case
    by (simp add: detect_def Let_def updateTracking_distinct updateTracking_canonical
          updateTracking_seen)
next
  case (e_expire tracked now)
  then show ?case
    by (auto simp: expireOldOpportunities_def trackedKeysCanonical_def seenAtLeastOnce_def
          list_all_iff distinct_map_filter)
qed

lemma example_keys:
  "getOpportunityKey exampleOpp = ''cross_market_m1_m2''"
  "getOpportunityKey exampleOpp8 = ''cross_market_m1_m2''"
  "getOpportunityKey exampleOpp12 = ''cross_market_m1_m2''"
  by (simp_all add: getOpportunityKey_def typeName_def exampleOpp_def exampleOpp8_def exampleOpp12_def)

lemma example_cycle1:
  "detectionCycle [] 1000 [exampleOpp] =
     ([(''cross_market_m1_m2'',
        \<lparr>opportunity = exampleOpp, firstSeenAt = 1000, lastSeenAt = 1000, seenCount = 1,
         priceHistory = [(1000, 1/20)], executed = False\<rparr>)], [exampleOpp])"
  by (simp add: detectionCycle_def detect_def filterAndDedupe_def sortByProfit_def
        updateTracking_def trackOne_def example_keys Let_def)
     (simp add: exampleOpp_def)

lemma example_cycle2:
  "detectionCycle (fst (detectionCycle [] 1000 [exampleOpp])) 11000 [exampleOpp8] =
     ([(''cross_market_m1_m2'',
        \<lparr>opportunity = exampleOpp8, firstSeenAt = 1000, lastSeenAt = 11000, seenCount = 2,
         priceHistory = [(1000, 1/20), (11000, 1/20)], executed = False\<rparr>)], [])"
  by (simp add: example_cycle1)
     (simp add: detectionCycle_def detect_def filterAndDedupe_def sortByProfit_def
        updateTracking_def trackOne_def example_keys Let_def,
      simp add: exampleOpp_def exampleOpp8_def)

lemma example_cycle3:
  "detectionCycle
     (fst (detectionCycle (fst (detectionCycle [] 1000 [exampleOpp])) 11000 [exampleOpp8]))
     21000 [exampleOpp12] =
     ([(''cross_market_m1_m2'',
        \<lparr>opportunity = exampleOpp12, firstSeenAt = 1000, lastSeenAt = 21000, seenCount = 3,
         priceHistory = [(1000, 1/20), (11000, 1/20), (21000, 1/20)], executed = False\<rparr>)], [])"
  by (simp add: example_cycle2)
     (simp add: detectionCycle_def detect_def filterAndDedupe_def sortByProfit_def
        updateTracking_def trackOne_def example_keys Let_def,
      simp add: exampleOpp_def exampleOpp8_def exampleOpp12_def)

lemma example_profits:
  "profitPercent exampleOpp8 = 8" "profitPercent exampleOpp12 = 12"
  by (simp_all add: exampleOpp8_def exampleOpp12_def)

text \<open>
  Claim C3, on the code. Both callers run \<open>detect\<close>, which updates the tracked map, and
  only then \<open>getNewOpportunities\<close>. An opportunity is reported in the cycle that first
  sees it. In the next cycle, its second sighting, with the profit moved from 5 to 8
  percent, nothing is reported, and in the third cycle, with the profit moved from 8 to
  12 percent, nothing is reported either; against the tracked map as it was before each of
  these cycles, \<open>getNewOpportunities\<close> does report the opportunity.
\<close>

theorem redetection_not_reported_example:
  "snd (detectionCycle [] 1000 [exampleOpp]) = [exampleOpp]
   \<and> getNewOpportunities (fst (detectionCycle [] 1000 [exampleOpp])) [exampleOpp8] = [exampleOpp8]
   \<and> snd (detectionCycle (fst (detectionCycle [] 1000 [exampleOpp])) 11000 [exampleOpp8]) = []
   \<and> getNewOpportunities
        (fst (detectionCycle (fst (detectionCycle [] 1000 [exampleOpp])) 11000 [exampleOpp8]))
        [exampleOpp12] = [exampleOpp12]
   \<and> snd (detectionCycle
        (fst (detectionCycle (fst (detectionCycle [] 1000 [exampleOpp])) 11000 [exampleOpp8]))
        21000 [exampleOpp12]) = []"
proof -
  have c1: "snd (detectionCycle [] 1000 [exampleOpp]) = [exampleOpp]"
    by (simp only: example_cycle1 snd_conv)
  have g2: "getNewOpportunities (fst (detectionCycle [] 1000 [exampleOpp])) [exampleOpp8]
              = [exampleOpp8]"
    by (simp only: example_cycle1 fst_conv) (simp add: example_keys)
  have c2: "snd (detectionCycle (fst (detectionCycle [] 1000 [exampleOpp])) 11000 [exampleOpp8]) = []"
    by (simp only: example_cycle2 snd_conv)
  have g3: "getNewOpportunities
        (fst (detectionCycle (fst (detectionCycle [] 1000 [exampleOpp])) 11000 [exampleOpp8]))
        [exampleOpp12] = [exampleOpp12]"
    by (simp only: example_cycle2 fst_conv) (simp add: example_keys example_profits)
  have c3: "snd (detectionCycle
        (fst (detectionCycle (fst (detectionCycle [] 1000 [exampleOpp])) 11000 [exampleOpp8]))
        21000 [exampleOpp12]) = []"
    by (simp only: example_cycle3 snd_conv)
  from c1 g2 c2 g3 c3 show ?thesis by blast
qed

lemma canonical_keys_map:
  "trackedKeysCanonical tracked \<Longrightarrow>
     map (\<lambda>kt. getOpportunityKey (opportunity (snd kt))) tracked = map fst tracked"
  by (induction tracked) (auto simp: trackedKeysCanonical_def)

text \<open>
  Claim C4. \<open>filterAndDedupe\<close> returns opportunities of its input with pairwise different
  keys, and for every input opportunity one with the same key and at least its profit;
  the key is \<open>mo_\<close> and the first market for the type \<open>multi_outcome\<close> (NegRisk included)
  and the type with both market identifiers otherwise. In every tracked map the engine
  can reach, no key and no canonical key of a tracked opportunity occurs twice; detecting
  the same opportunities again leaves the keys of the map as they are and replaces each
  entry by its update.
\<close>

theorem dedupe_and_tracking:
  "distinct (map getOpportunityKey (filterAndDedupe opps))
   \<and> set (filterAndDedupe opps) \<subseteq> set opps
   \<and> (\<forall>x \<in> set opps. \<exists>y \<in> set (filterAndDedupe opps).
         getOpportunityKey y = getOpportunityKey x \<and> profitPercent x \<le> profitPercent y)
   \<and> getOpportunityKey opp =
       (if type opp = multi_outcome then ''mo_'' @ market1Id opp
        else typeName (type opp) @ ''_'' @ market1Id opp @ ''_''
             @ (case market2Id opp of None \<Rightarrow> [] | Some m2 \<Rightarrow> m2))
   \<and> (engineReachable tracked \<longrightarrow>
        distinct (map fst tracked)
        \<and> trackedKeysCanonical tracked
        \<and> distinct (map (\<lambda>kt. getOpportunityKey (opportunity (snd kt))) tracked)
        \<and> map fst (fst (detect (fst (detect tracked now1 opps)) now2 opps))
            = map fst (fst (detect tracked now1 opps))
        \<and> (\<forall>x \<in> set (filterAndDedupe opps).
              map_of (fst (detect (fst (detect tracked now1 opps)) now2 opps)) (getOpportunityKey x)
                = Some (trackedEntry now2 x
                         (map_of (fst (detect tracked now1 opps)) (getOpportunityKey x)))))"
proof -
  have best: "\<forall>x \<in> set opps. \<exists>y \<in> set (filterAndDedupe opps).
         getOpportunityKey y = getOpportunityKey x \<and> profitPercent x \<le> profitPercent y"
    using filterAndDedupe_keeps_best by blast
  have key: "getOpportunityKey opp =
       (if type opp = multi_outcome then ''mo_'' @ market1Id opp
        else typeName (type opp) @ ''_'' @ market1Id opp @ ''_''
             @ (case market2Id opp of None \<Rightarrow> [] | Some m2 \<Rightarrow> m2))"
    by (simp add: getOpportunityKey_def)
  have tracked: "distinct (map fst tracked)
        \<and> trackedKeysCanonical tracked
        \<and> distinct (map (\<lambda>kt. getOpportunityKey (opportunity (snd kt))) tracked)
        \<and> map fst (fst (detect (fst (detect tracked now1 opps)) now2 opps))
            = map fst (fst (detect tracked now1 opps))
        \<and> (\<forall>x \<in> set (filterAndDedupe opps).
              map_of (fst (detect (fst (detect tracked now1 opps)) now2 opps)) (getOpportunityKey x)
                = Some (trackedEntry now2 x
                         (map_of (fst (detect tracked now1 opps)) (getOpportunityKey x))))"
    if r: "engineReachable tracked"
  proof -
    from engineReachable_invariant [OF r]
    have d: "distinct (map fst tracked)" and c: "trackedKeysCanonical tracked" by simp_all
    have d': "distinct (map (\<lambda>kt. getOpportunityKey (opportunity (snd kt))) tracked)"
      using d by (simp only: canonical_keys_map [OF c])
    have same: "map fst (fst (detect (fst (detect tracked now1 opps)) now2 opps))
            = map fst (fst (detect tracked now1 opps))"
      by (simp add: detect_def Let_def redetect_same_keys)
    have upd: "\<forall>x \<in> set (filterAndDedupe opps).
              map_of (fst (detect (fst (detect tracked now1 opps)) now2 opps)) (getOpportunityKey x)
                = Some (trackedEntry now2 x
                         (map_of (fst (detect tracked now1 opps)) (getOpportunityKey x)))"
      by (simp add: detect_def Let_def tracked_after_update [OF filterAndDedupe_distinct])
    from d c d' same upd show ?thesis by blast
  qed
  from filterAndDedupe_distinct [of opps] filterAndDedupe_subset [of opps] best key tracked
  show ?thesis by blast
qed

lemma example_dedupe: "filterAndDedupe [exampleOpp, exampleOpp8] = [exampleOpp8]"
  by (simp add: filterAndDedupe_def sortByProfit_def example_keys example_profits)
     (simp add: exampleOpp_def)

lemma example_tracked_keys:
  "map fst (fst (detect [] 1000 [exampleOpp, exampleOpp8])) = [''cross_market_m1_m2'']"
  by (simp add: detect_def Let_def example_dedupe updateTracking_def trackOne_keys example_keys)

theorem dedupe_and_tracking_witness:
  "engineReachable []
   \<and> exampleOpp \<in> set [exampleOpp, exampleOpp8]
   \<and> filterAndDedupe [exampleOpp, exampleOpp8] = [exampleOpp8]
   \<and> profitPercent exampleOpp \<le> profitPercent exampleOpp8
   \<and> map fst (fst (detect [] 1000 [exampleOpp, exampleOpp8])) = [''cross_market_m1_m2'']
   \<and> map fst (fst (detect (fst (detect [] 1000 [exampleOpp, exampleOpp8])) 11000
                      [exampleOpp, exampleOpp8])) = [''cross_market_m1_m2'']"
proof -
  have r: "engineReachable []" by (rule engineReachable.e_new)
  have p: "profitPercent exampleOpp \<le> profitPercent exampleOpp8"
    by (simp add: example_profits) (simp add: exampleOpp_def)
  from dedupe_and_tracking [of "[exampleOpp, exampleOpp8]" exampleOpp "[]" 1000 11000] r
  have "map fst (fst (detect (fst (detect [] 1000 [exampleOpp, exampleOpp8])) 11000
                      [exampleOpp, exampleOpp8]))
          = map fst (fst (detect [] 1000 [exampleOpp, exampleOpp8]))"
    by blast
  with r p example_dedupe example_tracked_keys show ?thesis by simp
qed

section \<open>Rejections of the similarity matcher\<close>

lemma subjectRule_identical: "\<not> subjectRuleRejects s s"
  by (simp add: subjectRuleRejects_def split: option.splits)

text \<open>
  Claim C7, as amended. If both markets have a non-empty subject, the two subjects differ
  and their word overlap (the Jaccard similarity of their words longer than two
  characters) is below 50 percent, \<open>compareMarkets\<close> returns no match, whatever the other
  similarity components are; a pair whose name overlap is below 30 percent is rejected as
  well; and a pair with identical subjects is never rejected by the subject rule: the
  result is that of the scoring that follows it.
\<close>

theorem compareMarkets_rejections:
  "(subject m1 = Some s1 \<and> subject m2 = Some s2 \<and> s1 \<noteq> [] \<and> s2 \<noteq> [] \<and> s1 \<noteq> s2
      \<and> jaccardSimilarity (subjectWords s1) (subjectWords s2) < 1/2
      \<longrightarrow> compareMarkets m1 m2 isInverse = None)
   \<and> (jaccardSimilarity (names (entities m1)) (names (entities m2)) < 3/10
      \<longrightarrow> compareMarkets m1 m2 isInverse = None)
   \<and> (subject m1 = subject m2
      \<longrightarrow> \<not> subjectRuleRejects (subject m1) (subject m2)
          \<and> compareMarkets m1 m2 isInverse = scoreMarkets m1 m2 isInverse)"
  by (auto simp: compareMarkets_def subjectRuleRejects_def scoreMarkets_def Let_def
        subjectRule_identical split: option.splits)

lemma example_subject_words:
  "subjectWords ''la'' = []"
  "subjectWords ''golden knights'' = [''golden'', ''knights'']"
  "subjectWords ''florida panthers'' = [''florida'', ''panthers'']"
  by (simp_all add: subjectWords_def splitWs_def isSpace_def)

lemma example_knights_overlap:
  "jaccardSimilarity (subjectWords ''golden knights'') (subjectWords ''florida panthers'') = 0"
  by (simp add: example_subject_words jaccardSimilarity_def Let_def)

lemma example_la_overlap:
  "jaccardSimilarity (subjectWords ''la'') (subjectWords ''la'') = 0"
  by (simp add: example_subject_words jaccardSimilarity_def)

lemma example_la_score:
  "map_option similarityScore (scoreMarkets marketLA1 marketLA2 False) = Some 1"
  by (simp add: scoreMarkets_def marketLA1_def marketLA2_def jaccardSimilarity_def Let_def)

lemma example_names_overlap:
  "jaccardSimilarity (names (entities marketKnights)) (names (entities marketBitcoin)) = 0"
  "jaccardSimilarity (names (entities marketKnights)) (names (entities marketPanthers)) = 1/3"
  by (simp_all add: marketKnights_def marketBitcoin_def marketPanthers_def jaccardSimilarity_def Let_def)

theorem compareMarkets_rejections_witness:
  "subject marketKnights = Some ''golden knights''
   \<and> subject marketPanthers = Some ''florida panthers''
   \<and> jaccardSimilarity (subjectWords ''golden knights'') (subjectWords ''florida panthers'') < 1/2
   \<and> \<not> jaccardSimilarity (names (entities marketKnights)) (names (entities marketPanthers)) < 3/10
   \<and> compareMarkets marketKnights marketPanthers False = None
   \<and> jaccardSimilarity (names (entities marketKnights)) (names (entities marketBitcoin)) < 3/10
   \<and> compareMarkets marketKnights marketBitcoin False = None
   \<and> subject marketLA1 = subject marketLA2
   \<and> compareMarkets marketLA1 marketLA2 False = scoreMarkets marketLA1 marketLA2 False"
proof -
  have k: "subject marketKnights = Some ''golden knights''" by (simp add: marketKnights_def)
  have p: "subject marketPanthers = Some ''florida panthers''" by (simp add: marketPanthers_def)
  have o: "jaccardSimilarity (subjectWords ''golden knights'') (subjectWords ''florida panthers'') < 1/2"
    by (simp add: example_knights_overlap)
  have n: "jaccardSimilarity (names (entities marketKnights)) (names (entities marketBitcoin)) < 3/10"
    by (simp add: example_names_overlap)
  have n': "\<not> jaccardSimilarity (names (entities marketKnights)) (names (entities marketPanthers)) < 3/10"
    by (simp add: example_names_overlap)
  have l: "subject marketLA1 = subject marketLA2" by (simp add: marketLA1_def marketLA2_def)
  have ne: "''golden knights'' \<noteq> ''florida panthers''" "''golden knights'' \<noteq> []"
    "''florida panthers'' \<noteq> []" by simp_all
  from compareMarkets_rejections [of marketKnights "''golden knights''" marketPanthers
         "''florida panthers''" False] k p o ne
  have r1: "compareMarkets marketKnights marketPanthers False = None" by blast
  from compareMarkets_rejections [of marketKnights "''golden knights''" marketBitcoin
         "''florida panthers''" False] n
  have r2: "compareMarkets marketKnights marketBitcoin False = None" by blast
  from compareMarkets_rejections [of marketLA1 "''la''" marketLA2 "''la''" False] l
  have r3: "compareMarkets marketLA1 marketLA2 False = scoreMarkets marketLA1 marketLA2 False"
    by blast
  from k p o n n' l r1 r2 r3 show ?thesis by blast
qed

text \<open>
  Claim C7 as stated fails: two markets on the same event whose common subject \<open>la\<close> has
  no word longer than two characters have a subject word overlap of zero, below 50
  percent, and are matched with similarity 1.
\<close>

theorem compareMarkets_identical_subject_counterexample:
  "subject marketLA1 = Some ''la''
   \<and> subject marketLA2 = Some ''la''
   \<and> jaccardSimilarity (subjectWords ''la'') (subjectWords ''la'') < 1/2
   \<and> compareMarkets marketLA1 marketLA2 False \<noteq> None"
proof -
  have "compareMarkets marketLA1 marketLA2 False = scoreMarkets marketLA1 marketLA2 False"
    by (simp add: compareMarkets_def marketLA1_def marketLA2_def subjectRule_identical)
  moreover have "scoreMarkets marketLA1 marketLA2 False \<noteq> None"
    using example_la_score by auto
  ultimately show ?thesis
    by (simp add: example_la_overlap) (simp add: marketLA1_def marketLA2_def)
qed

end
